theory Spec2Isabelle
  imports Complex_Main
begin

section \<open>Time-series buffer of the live chart hook\<close>

text \<open>
  \<^verbatim>\<open>src/hooks/use-live-chart-data.ts\<close>, \<^verbatim>\<open>appendDataPoint\<close> and the price-change effect:
  both copy the buffer, push the new point at the end and, when the copy is longer than
  \<^verbatim>\<open>maxDataPoints\<close>, call \<^verbatim>\<open>shift()\<close> once, which removes the first element (and does
  nothing on an empty array). The element type plays no role in the buffer logic, so
  the operation is polymorphic in it. The capacity is a count and is a \<open>nat\<close>.
\<close>

definition shift :: "'a list \<Rightarrow> 'a list" where
  "shift xs = (case xs of [] \<Rightarrow> [] | _ # rest \<Rightarrow> rest)"

definition appendDataPoint :: "nat \<Rightarrow> 'a list \<Rightarrow> 'a \<Rightarrow> 'a list" where
  "appendDataPoint maxDataPoints dataPoints dataPoint =
     (let updatedData = dataPoints @ [dataPoint]
      in if length updatedData > maxDataPoints then shift updatedData else updatedData)"

text \<open>A sequence of appends, oldest call first.\<close>

fun appendAll :: "nat \<Rightarrow> 'a list \<Rightarrow> 'a list \<Rightarrow> 'a list" where
  "appendAll maxDataPoints dataPoints [] = dataPoints"
| "appendAll maxDataPoints dataPoints (p # ps) =
     appendAll maxDataPoints (appendDataPoint maxDataPoints dataPoints p) ps"

section \<open>JavaScript numbers\<close>

text \<open>
  The seeding code divides, and a JavaScript division by zero does not fail: it yields
  \<^verbatim>\<open>Infinity\<close>, \<^verbatim>\<open>-Infinity\<close> or \<^verbatim>\<open>NaN\<close>, which then flow through the rest of the
  arithmetic. A number is therefore one of these three or a finite real. Rounding,
  overflow and the sign of zero are not modelled: finite arithmetic is exact.
\<close>

datatype jsnum = NaN | PInf | NInf | Fin real

fun js_neg :: "jsnum \<Rightarrow> jsnum" where
  "js_neg NaN = NaN"
| "js_neg PInf = NInf"
| "js_neg NInf = PInf"
| "js_neg (Fin a) = Fin (- a)"

fun js_add :: "jsnum \<Rightarrow> jsnum \<Rightarrow> jsnum" where
  "js_add NaN _ = NaN"
| "js_add _ NaN = NaN"
| "js_add PInf NInf = NaN"
| "js_add NInf PInf = NaN"
| "js_add PInf _ = PInf"
| "js_add _ PInf = PInf"
| "js_add NInf _ = NInf"
| "js_add _ NInf = NInf"
| "js_add (Fin a) (Fin b) = Fin (a + b)"

definition js_sub :: "jsnum \<Rightarrow> jsnum \<Rightarrow> jsnum" where
  "js_sub a b = js_add a (js_neg b)"

text \<open>The sign of an infinite product; zero times infinity is \<^verbatim>\<open>NaN\<close>.\<close>

definition inf_times :: "bool \<Rightarrow> real \<Rightarrow> jsnum" where
  "inf_times positive b =
     (if b = 0 then NaN else if (0 < b) = positive then PInf else NInf)"

fun js_mul :: "jsnum \<Rightarrow> jsnum \<Rightarrow> jsnum" where
  "js_mul NaN _ = NaN"
| "js_mul _ NaN = NaN"
| "js_mul (Fin a) (Fin b) = Fin (a * b)"
| "js_mul PInf (Fin b) = inf_times True b"
| "js_mul NInf (Fin b) = inf_times False b"
| "js_mul (Fin a) PInf = inf_times True a"
| "js_mul (Fin a) NInf = inf_times False a"
| "js_mul PInf PInf = PInf"
| "js_mul NInf NInf = PInf"
| "js_mul PInf NInf = NInf"
| "js_mul NInf PInf = NInf"

fun js_div :: "jsnum \<Rightarrow> jsnum \<Rightarrow> jsnum" where
  "js_div NaN _ = NaN"
| "js_div _ NaN = NaN"
| "js_div (Fin a) (Fin b) =
     (if b \<noteq> 0 then Fin (a / b)
      else if a = 0 then NaN else if 0 < a then PInf else NInf)"
| "js_div (Fin a) _ = Fin 0"
| "js_div PInf (Fin b) = (if 0 \<le> b then PInf else NInf)"
| "js_div NInf (Fin b) = (if 0 \<le> b then NInf else PInf)"
| "js_div _ _ = NaN"

text \<open>\<^verbatim>\<open>a < b\<close>: false as soon as one side is \<^verbatim>\<open>NaN\<close>.\<close>

fun js_lt :: "jsnum \<Rightarrow> jsnum \<Rightarrow> bool" where
  "js_lt NaN _ = False"
| "js_lt _ NaN = False"
| "js_lt (Fin a) (Fin b) = (a < b)"
| "js_lt NInf b = (b \<noteq> NInf)"
| "js_lt a PInf = (a \<noteq> PInf)"
| "js_lt _ _ = False"

text \<open>\<^verbatim>\<open>Math.max(a, b)\<close>: \<^verbatim>\<open>NaN\<close> as soon as one argument is.\<close>

fun js_max :: "jsnum \<Rightarrow> jsnum \<Rightarrow> jsnum" where
  "js_max NaN _ = NaN"
| "js_max _ NaN = NaN"
| "js_max a b = (if js_lt a b then b else a)"

text \<open>\<^verbatim>\<open>Math.sin\<close>: \<^verbatim>\<open>NaN\<close> on an infinite or \<^verbatim>\<open>NaN\<close> argument.\<close>

fun js_sin :: "jsnum \<Rightarrow> jsnum" where
  "js_sin (Fin a) = Fin (sin a)"
| "js_sin _ = NaN"

text \<open>\<^verbatim>\<open>Math.pow(x, 2)\<close>.\<close>

definition js_pow2 :: "jsnum \<Rightarrow> jsnum" where
  "js_pow2 x = js_mul x x"

text \<open>\<^verbatim>\<open>a >= b\<close> on numbers, used to state the lower bound of the clamp.\<close>

definition js_ge :: "jsnum \<Rightarrow> jsnum \<Rightarrow> bool" where
  "js_ge a b = (a \<noteq> NaN \<and> b \<noteq> NaN \<and> \<not> js_lt a b)"

section \<open>Seeding the chart history\<close>

text \<open>
  The \<^verbatim>\<open>Token\<close> interface of \<^verbatim>\<open>src/store/tokensSlice.ts\<close>. Optional fields are options.
  The numeric fields are finite reals.
\<close>

datatype category = New | Final_stretch | Migrated

record Token =
  id' :: string
  symbol :: string
  name :: string
  price :: real
  priceChange24h :: real
  volume24h :: real
  marketCap :: real
  liquidity :: real
  holders :: "real option"
  logo :: "string option"
  chain :: string
  category :: "category option"
  isFavorite :: "bool option"

text \<open>
  \<^verbatim>\<open>ChartDataPoint\<close>. The source stores \<^verbatim>\<open>time\<close> as the ISO-8601 string of an instant
  (\<^verbatim>\<open>new Date(ms).toISOString()\<close>); the model keeps the instant itself, in milliseconds
  since the epoch. Two instants have the same string exactly when they are equal.
\<close>

record ChartDataPoint =
  time :: int
  value' :: jsnum

text \<open>
  \<^verbatim>\<open>parseInt(s)\<close> with no radix: leading white space is skipped, a sign is read, a
  \<^verbatim>\<open>0x\<close> prefix selects base 16, then the longest run of digits is taken; with no digit
  the result is \<^verbatim>\<open>NaN\<close>, here \<open>None\<close>.
\<close>

definition is_ws :: "char \<Rightarrow> bool" where
  "is_ws c = (c \<in> {CHR '' '', CHR 0x09, CHR 0x0A, CHR 0x0B, CHR 0x0C, CHR 0x0D})"

definition digit_value :: "char \<Rightarrow> nat option" where
  "digit_value c =
     (let n = (of_char c :: nat)
      in if 48 \<le> n \<and> n \<le> 57 then Some (n - 48)
         else if 97 \<le> n \<and> n \<le> 102 then Some (n - 87)
         else if 65 \<le> n \<and> n \<le> 70 then Some (n - 55)
         else None)"

definition is_digit :: "nat \<Rightarrow> char \<Rightarrow> bool" where
  "is_digit radix c = (case digit_value c of None \<Rightarrow> False | Some d \<Rightarrow> d < radix)"

definition digits_value :: "nat \<Rightarrow> string \<Rightarrow> nat" where
  "digits_value radix ds =
     foldl (\<lambda>acc c. acc * radix + (case digit_value c of None \<Rightarrow> 0 | Some d \<Rightarrow> d)) 0 ds"

definition parseInt :: "string \<Rightarrow> int option" where
  "parseInt s =
     (let t = dropWhile is_ws s;
          negative = (take 1 t = ''-'');
          u = (if take 1 t = ''-'' \<or> take 1 t = ''+'' then drop 1 t else t);
          hex = (take 2 u = ''0x'' \<or> take 2 u = ''0X'');
          radix = (if hex then 16 else 10);
          ds = takeWhile (is_digit radix) (if hex then drop 2 u else u)
      in if ds = [] then None
         else Some ((if negative then - 1 else 1) * int (digits_value radix ds)))"

text \<open>
  \<^verbatim>\<open>parseInt(token.id) || token.symbol.charCodeAt(0)\<close>: the right operand is taken when
  the left one is \<^verbatim>\<open>NaN\<close> or zero; \<^verbatim>\<open>charCodeAt(0)\<close> of the empty string is \<^verbatim>\<open>NaN\<close>.
  Characters are bytes here, which agrees with JavaScript's code units on ASCII. Digit
  strings too long for a double to hold exactly are not rounded.
\<close>

definition charCodeAt0 :: "string \<Rightarrow> jsnum" where
  "charCodeAt0 s = (case s of [] \<Rightarrow> NaN | c # _ \<Rightarrow> Fin (real (of_char c :: nat)))"

definition tokenSeed :: "Token \<Rightarrow> jsnum" where
  "tokenSeed token =
     (case parseInt (id' token) of
        None \<Rightarrow> charCodeAt0 (symbol token)
      | Some n \<Rightarrow> if n = 0 then charCodeAt0 (symbol token) else Fin (real_of_int n))"

text \<open>
  The body of the loop of \<^verbatim>\<open>generateInitialData\<close> at index \<open>i\<close>, with \<open>now\<close> the value
  of \<^verbatim>\<open>Date.now()\<close> read at the start of the call.
\<close>

definition startPrice :: "Token \<Rightarrow> jsnum" where
  "startPrice token =
     js_div (Fin (price token)) (js_add (Fin 1) (js_div (Fin (priceChange24h token)) (Fin 100)))"

definition progress :: "nat \<Rightarrow> nat \<Rightarrow> jsnum" where
  "progress dataPoints i = js_div (Fin (real i)) (js_sub (Fin (real dataPoints)) (Fin 1))"

definition smoothProgress :: "jsnum \<Rightarrow> jsnum" where
  "smoothProgress p =
     (if js_lt p (Fin 0.5) then js_mul (js_mul (Fin 2) p) p
      else js_sub (Fin 1) (js_div (js_pow2 (js_add (js_mul (Fin (- 2)) p) (Fin 2))) (Fin 2)))"

definition seedValue :: "Token \<Rightarrow> nat \<Rightarrow> nat \<Rightarrow> jsnum" where
  "seedValue token dataPoints i =
     (let currentPrice = Fin (price token);
          p = progress dataPoints i;
          baseValue = js_add (startPrice token)
                        (js_mul (js_sub currentPrice (startPrice token)) (smoothProgress p));
          wave1 = js_mul (js_mul (js_sin (js_add (js_mul (js_mul p (Fin pi)) (Fin 2)) (tokenSeed token)))
                     currentPrice) (Fin 0.008);
          wave2 = js_mul (js_mul (js_sin (js_add (js_mul (js_mul p (Fin pi)) (Fin 4))
                                                 (js_mul (tokenSeed token) (Fin 2))))
                     currentPrice) (Fin 0.004);
          v = js_add (js_add baseValue wave1) wave2
      in js_max v (js_mul currentPrice (Fin 0.5)))"

definition seedPoint :: "Token \<Rightarrow> nat \<Rightarrow> int \<Rightarrow> nat \<Rightarrow> ChartDataPoint" where
  "seedPoint token dataPoints now i =
     (let timeOffset = (int dataPoints - int i - 1) * 60 * 60 * 1000
      in \<lparr>time = now - timeOffset, value' = seedValue token dataPoints i\<rparr>)"

definition generateInitialData :: "Token \<Rightarrow> nat \<Rightarrow> int \<Rightarrow> ChartDataPoint list" where
  "generateInitialData token dataPoints now =
     map (seedPoint token dataPoints now) [0 ..< dataPoints]"

section \<open>The live chart hook\<close>

text \<open>
  \<^verbatim>\<open>useLiveChartData\<close> keeps three refs and one piece of React state. The model runs the
  hook as React does: the first render creates the refs and runs every effect; a later
  render runs an effect only when one of its dependencies differs from the previous
  render. The state update of the seeding effect is deferred through
  \<^verbatim>\<open>requestAnimationFrame\<close>; the queued callbacks are kept in \<open>pendingFrames\<close>.
  The heartbeat interval does nothing and is left out. \<open>seedCalls\<close> is not part of the
  source: it counts the calls of \<^verbatim>\<open>generateInitialData\<close>.
\<close>

record hook_options =
  maxDataPoints :: nat
  initialDataPoints :: nat

record hook_state =
  chartData :: "ChartDataPoint list"
  lastPriceRef :: real
  dataPointsRef :: "ChartDataPoint list"
  initializedTokenRef :: string
  pendingFrames :: "ChartDataPoint list list"
  initDeps :: "string \<times> nat"
  priceDeps :: "real \<times> nat"
  seedCalls :: nat

definition initEffect :: "Token \<Rightarrow> hook_options \<Rightarrow> int \<Rightarrow> hook_state \<Rightarrow> hook_state" where
  "initEffect token opts now st =
     (if initializedTokenRef st \<noteq> id' token then
        (let initData = generateInitialData token (initialDataPoints opts) now
         in st\<lparr>dataPointsRef := initData,
               lastPriceRef := price token,
               initializedTokenRef := id' token,
               pendingFrames := pendingFrames st @ [initData],
               seedCalls := seedCalls st + 1\<rparr>)
      else st)"

definition priceEffect :: "Token \<Rightarrow> hook_options \<Rightarrow> int \<Rightarrow> hook_state \<Rightarrow> hook_state" where
  "priceEffect token opts now st =
     (if lastPriceRef st = price token then st
      else
        (let newDataPoint = \<lparr>time = now, value' = Fin (price token)\<rparr>;
             updatedData = dataPointsRef st @ [newDataPoint];
             updatedData = (if length updatedData > maxDataPoints opts
                            then shift updatedData else updatedData)
         in st\<lparr>dataPointsRef := updatedData,
               chartData := updatedData,
               lastPriceRef := price token\<rparr>))"

definition hookAppendDataPoint :: "hook_options \<Rightarrow> ChartDataPoint \<Rightarrow> hook_state \<Rightarrow> hook_state" where
  "hookAppendDataPoint opts dataPoint st =
     (let updatedData = appendDataPoint (maxDataPoints opts) (dataPointsRef st) dataPoint
      in st\<lparr>dataPointsRef := updatedData, chartData := updatedData\<rparr>)"

definition mountHook :: "Token \<Rightarrow> hook_options \<Rightarrow> int \<Rightarrow> hook_state" where
  "mountHook token opts now =
     priceEffect token opts now
       (initEffect token opts now
          \<lparr>chartData = [], lastPriceRef = price token, dataPointsRef = [],
           initializedTokenRef = [], pendingFrames = [],
           initDeps = (id' token, initialDataPoints opts),
           priceDeps = (price token, maxDataPoints opts),
           seedCalls = 0\<rparr>)"

definition renderHook :: "Token \<Rightarrow> hook_options \<Rightarrow> int \<Rightarrow> hook_state \<Rightarrow> hook_state" where
  "renderHook token opts now st =
     (let st1 = (if initDeps st \<noteq> (id' token, initialDataPoints opts)
                 then initEffect token opts now st else st);
          st2 = (if priceDeps st \<noteq> (price token, maxDataPoints opts)
                 then priceEffect token opts now st1 else st1)
      in st2\<lparr>initDeps := (id' token, initialDataPoints opts),
              priceDeps := (price token, maxDataPoints opts)\<rparr>)"

definition runFrame :: "hook_state \<Rightarrow> hook_state" where
  "runFrame st =
     (case pendingFrames st of
        [] \<Rightarrow> st
      | initData # rest \<Rightarrow> st\<lparr>chartData := initData, pendingFrames := rest\<rparr>)"

text \<open>What can happen to a mounted hook, and a run of such events.\<close>

datatype hook_event =
    Render Token hook_options int
  | Frame
  | Append hook_options ChartDataPoint

fun hookStep :: "hook_state \<Rightarrow> hook_event \<Rightarrow> hook_state" where
  "hookStep st (Render token opts now) = renderHook token opts now st"
| "hookStep st Frame = runFrame st"
| "hookStep st (Append opts dataPoint) = hookAppendDataPoint opts dataPoint st"

definition runHook :: "hook_state \<Rightarrow> hook_event list \<Rightarrow> hook_state" where
  "runHook st evs = foldl hookStep st evs"

text \<open>An event keeps the identifier \<open>i\<close> when it is not a render of another identifier.\<close>

fun keepsId :: "string \<Rightarrow> hook_event \<Rightarrow> bool" where
  "keepsId i (Render token opts now) = (id' token = i)"
| "keepsId i _ = True"

text \<open>An event uses the options \<open>opts\<close> when it is not a render or an append under others.\<close>

fun usesOptions :: "hook_options \<Rightarrow> hook_event \<Rightarrow> bool" where
  "usesOptions opts (Render token opts' now) = (opts' = opts)"
| "usesOptions opts Frame = True"
| "usesOptions opts (Append opts' dataPoint) = (opts' = opts)"

text \<open>Tokens used in the examples below.\<close>

definition tokenOne :: Token where
  "tokenOne = \<lparr>id' = ''1'', symbol = ''SOL'', name = ''Solana'', price = 10,
     priceChange24h = 25, volume24h = 0, marketCap = 0, liquidity = 0, holders = None,
     logo = None, chain = ''solana'', category = None, isFavorite = None\<rparr>"

definition tokenX1 :: Token where
  "tokenX1 = \<lparr>id' = ''x1'', symbol = ''XYZ'', name = ''Xyz'', price = 1,
     priceChange24h = 5, volume24h = 0, marketCap = 0, liquidity = 0, holders = None,
     logo = None, chain = ''solana'', category = None, isFavorite = None\<rparr>"

definition tokenX2 :: Token where
  "tokenX2 = tokenX1\<lparr>id' := ''x2''\<rparr>"

definition tokenCrashed :: Token where
  "tokenCrashed = tokenOne\<lparr>priceChange24h := - 100\<rparr>"

definition tokenPumped :: Token where
  "tokenPumped = tokenOne\<lparr>priceChange24h := 300\<rparr>"

text \<open>The default options of the hook, and a run of renders of one token whose price,
  change and volume move while the identifier stays.\<close>

definition hookDefaults :: hook_options where
  "hookDefaults = \<lparr>maxDataPoints = 100, initialDataPoints = 24\<rparr>"

definition rendersOfOne :: "hook_event list" where
  "rendersOfOne =
     [Render (tokenOne\<lparr>price := 11\<rparr>) hookDefaults 3000,
      Frame,
      Render (tokenOne\<lparr>price := 12, priceChange24h := 50, volume24h := 7\<rparr>)
             (hookDefaults\<lparr>initialDataPoints := 48\<rparr>) 6000,
      Append hookDefaults \<lparr>time = 7000, value' = Fin 13\<rparr>]"

text \<open>
  Options whose seed is longer than the capacity, the options of a seven-day and of a
  one-hour chart, and two appends under the small and under the one-hour options: a
  render with a new price, which runs the price-change effect, and a call of
  \<^verbatim>\<open>appendDataPoint\<close>.
\<close>

definition hookSmall :: hook_options where
  "hookSmall = \<lparr>maxDataPoints = 10, initialDataPoints = 24\<rparr>"

definition hookWeek :: hook_options where
  "hookWeek = \<lparr>maxDataPoints = 168, initialDataPoints = 168\<rparr>"

definition hookHour :: hook_options where
  "hookHour = \<lparr>maxDataPoints = 60, initialDataPoints = 60\<rparr>"

definition appendsSmall :: "hook_event list" where
  "appendsSmall =
     [Render (tokenOne\<lparr>price := 11\<rparr>) hookSmall 3000,
      Append hookSmall \<lparr>time = 7000, value' = Fin 13\<rparr>]"

definition appendsHour :: "hook_event list" where
  "appendsHour =
     [Render (tokenOne\<lparr>price := 11\<rparr>) hookHour 3000,
      Append hookHour \<lparr>time = 7000, value' = Fin 13\<rparr>]"

section \<open>JavaScript values\<close>

text \<open>
  The provider payloads and the webhook body are parsed JSON of type \<^verbatim>\<open>any\<close>, so the
  code that reads them is modelled on untyped values. An object is the list of its own
  properties, each key once, as \<^verbatim>\<open>JSON.parse\<close> builds it.
\<close>

datatype jsval =
    JUndefined
  | JNull
  | JBool bool
  | JNum jsnum
  | JStr string
  | JArr "jsval list"
  | JObj "(string \<times> jsval) list"

datatype js_error = TypeError | FetchFailed | JsonFailed | TriggerFailed

text \<open>Truthiness, and \<^verbatim>\<open>a || b\<close>.\<close>

fun truthy :: "jsval \<Rightarrow> bool" where
  "truthy JUndefined = False"
| "truthy JNull = False"
| "truthy (JBool b) = b"
| "truthy (JNum NaN) = False"
| "truthy (JNum (Fin x)) = (x \<noteq> 0)"
| "truthy (JNum _) = True"
| "truthy (JStr s) = (s \<noteq> [])"
| "truthy (JArr _) = True"
| "truthy (JObj _) = True"

definition js_or :: "jsval \<Rightarrow> jsval \<Rightarrow> jsval" where
  "js_or a b = (if truthy a then a else b)"

definition nullish :: "jsval \<Rightarrow> bool" where
  "nullish v = (v = JUndefined \<or> v = JNull)"

text \<open>
  \<^verbatim>\<open>v.k\<close> on a value that is neither \<^verbatim>\<open>undefined\<close> nor \<^verbatim>\<open>null\<close>. Apart from \<^verbatim>\<open>length\<close>
  none of the property names that the sources read is an inherited property of a string,
  an array, a number or a boolean, so on those the result is \<^verbatim>\<open>undefined\<close>.
\<close>

fun js_field :: "jsval \<Rightarrow> string \<Rightarrow> jsval" where
  "js_field (JObj kvs) k = (case map_of kvs k of None \<Rightarrow> JUndefined | Some v \<Rightarrow> v)"
| "js_field (JStr s) k = (if k = ''length'' then JNum (Fin (real (length s))) else JUndefined)"
| "js_field (JArr xs) k = (if k = ''length'' then JNum (Fin (real (length xs))) else JUndefined)"
| "js_field _ k = JUndefined"

text \<open>\<^verbatim>\<open>v.k\<close> in general: a \<^verbatim>\<open>TypeError\<close> on \<^verbatim>\<open>undefined\<close> and \<^verbatim>\<open>null\<close>.\<close>

definition get_prop :: "jsval \<Rightarrow> string \<Rightarrow> js_error + jsval" where
  "get_prop v k = (if nullish v then Inl TypeError else Inr (js_field v k))"

text \<open>\<^verbatim>\<open>v?.k\<close>.\<close>

definition opt_prop :: "jsval \<Rightarrow> string \<Rightarrow> jsval" where
  "opt_prop v k = (if nullish v then JUndefined else js_field v k)"

text \<open>
  \<^verbatim>\<open>s?.toUpperCase()\<close>: \<^verbatim>\<open>undefined\<close> on \<^verbatim>\<open>undefined\<close> and \<^verbatim>\<open>null\<close>, the upper-cased
  string on a string, and a \<^verbatim>\<open>TypeError\<close> on anything else, which has no callable
  \<^verbatim>\<open>toUpperCase\<close>. Characters are bytes here; only the ASCII letters are mapped.
\<close>

definition upper_char :: "char \<Rightarrow> char" where
  "upper_char c =
     (case map_of (zip ''abcdefghijklmnopqrstuvwxyz'' ''ABCDEFGHIJKLMNOPQRSTUVWXYZ'') c of
        None \<Rightarrow> c
      | Some u \<Rightarrow> u)"

definition toUpperCase :: "string \<Rightarrow> string" where
  "toUpperCase s = map upper_char s"

fun opt_toUpperCase :: "jsval \<Rightarrow> js_error + jsval" where
  "opt_toUpperCase JUndefined = Inr JUndefined"
| "opt_toUpperCase JNull = Inr JUndefined"
| "opt_toUpperCase (JStr s) = Inr (JStr (toUpperCase s))"
| "opt_toUpperCase _ = Inl TypeError"

text \<open>\<^verbatim>\<open>String(n)\<close> for a non-negative integer such as \<^verbatim>\<open>Date.now()\<close>.\<close>

fun decimal :: "nat \<Rightarrow> string" where
  "decimal n =
     (if n < 10 then [''0123456789'' ! n]
      else decimal (n div 10) @ [''0123456789'' ! (n mod 10)])"

text \<open>
  The operand conversion of \<^verbatim>\<open>*\<close>. What the runtime makes of a string, an array or an
  object is a parameter.
\<close>

fun toNumber :: "(jsval \<Rightarrow> jsnum) \<Rightarrow> jsval \<Rightarrow> jsnum" where
  "toNumber rt (JNum n) = n"
| "toNumber rt JUndefined = NaN"
| "toNumber rt JNull = Fin 0"
| "toNumber rt (JBool b) = Fin (if b then 1 else 0)"
| "toNumber rt v = rt v"

definition js_times :: "(jsval \<Rightarrow> jsnum) \<Rightarrow> jsval \<Rightarrow> real \<Rightarrow> jsval" where
  "js_times rt v c = JNum (js_mul (toNumber rt v) (Fin c))"

text \<open>\<^verbatim>\<open>Math.floor(Math.random() * 10000)\<close> for a draw \<open>r\<close> of \<^verbatim>\<open>Math.random()\<close>.\<close>

definition randomHolders :: "real \<Rightarrow> jsval" where
  "randomHolders r = JNum (Fin (of_int \<lfloor>r * 10000\<rfloor>))"

text \<open>\<^verbatim>\<open>try { body } catch (error) { handler }\<close>, and a \<^verbatim>\<open>map\<close> whose callback may throw.\<close>

definition try_catch :: "js_error + 'a \<Rightarrow> (js_error \<Rightarrow> js_error + 'a) \<Rightarrow> js_error + 'a" where
  "try_catch body handler = (case body of Inl e \<Rightarrow> handler e | Inr x \<Rightarrow> Inr x)"

fun mapE :: "('a \<Rightarrow> js_error + 'b) \<Rightarrow> 'a list \<Rightarrow> js_error + 'b list" where
  "mapE f [] = Inr []"
| "mapE f (x # xs) =
     (case f x of
        Inl e \<Rightarrow> Inl e
      | Inr y \<Rightarrow> (case mapE f xs of Inl e \<Rightarrow> Inl e | Inr ys \<Rightarrow> Inr (y # ys)))"

section \<open>The event published on the channel\<close>

text \<open>
  Both producers build the same object literal and pass it to
  \<^verbatim>\<open>pusher.trigger('pulse', 'token.created', ...)\<close>. Its fields are what the \<^verbatim>\<open>||\<close> chains
  return, so they are untyped values. \<open>triggered\<close> below is the list of the objects
  passed to \<^verbatim>\<open>pusher.trigger\<close>, in call order, whether or not the broker accepted them.
\<close>

record payload =
  p_id :: jsval
  p_symbol :: jsval
  p_name :: jsval
  p_price :: jsval
  p_priceChange24h :: jsval
  p_volume24h :: jsval
  p_marketCap :: jsval
  p_liquidity :: jsval
  p_holders :: jsval
  p_chain :: jsval
  p_logo :: jsval
  p_category :: jsval

text \<open>What the runtime does that the model takes as given.\<close>

record js_runtime =
  rt_toNumber :: "jsval \<Rightarrow> jsnum"
  rt_parseFloat :: "jsval \<Rightarrow> jsnum"

section \<open>Webhook ingest\<close>

text \<open>
  \<^verbatim>\<open>src/app/api/broadcast/route.ts\<close>, \<^verbatim>\<open>POST\<close>. A request is the outcome of
  \<^verbatim>\<open>request.json()\<close> (\<open>None\<close> when it rejects), the clock, the draw of \<^verbatim>\<open>Math.random()\<close>
  and whether \<^verbatim>\<open>pusher.trigger\<close> resolves. Everything runs inside one \<^verbatim>\<open>try\<close> whose
  handler answers with status 500.
\<close>

record post_request =
  req_json :: "jsval option"
  req_now :: nat
  req_random :: real
  req_trigger_ok :: bool

datatype http_response = Success jsval | Failure


definition webhookToken :: "js_runtime \<Rightarrow> nat \<Rightarrow> real \<Rightarrow> jsval \<Rightarrow> js_error + payload" where
  "webhookToken rt now r tokenData =
     (case opt_toUpperCase (js_field tokenData ''symbol'') of
        Inl e \<Rightarrow> Inl e
      | Inr upper \<Rightarrow> Inr
         \<lparr>p_id = js_or (js_or (js_field tokenData ''id'') (js_field tokenData ''address''))
                       (JStr (decimal now)),
          p_symbol = js_or upper (JStr ''UNKNOWN''),
          p_name = js_or (js_field tokenData ''name'') (JStr ''New Token''),
          p_price = js_or (js_field tokenData ''price'') (JNum (Fin 0)),
          p_priceChange24h = js_or (js_field tokenData ''priceChange24h'') (JNum (Fin 0)),
          p_volume24h = js_or (js_or (js_field tokenData ''volume24h'') (js_field tokenData ''volume''))
                              (JNum (Fin 0)),
          p_marketCap = js_or (js_or (js_field tokenData ''marketCap'')
                                     (js_field tokenData ''market_cap'')) (JNum (Fin 0)),
          p_liquidity = js_or (js_field tokenData ''liquidity'')
                          (js_times (rt_toNumber rt)
                             (js_or (js_field tokenData ''volume24h'') (JNum (Fin 0))) 0.3),
          p_holders = js_or (js_field tokenData ''holders'') (randomHolders r),
          p_chain = js_or (js_or (js_field tokenData ''blockchain'') (js_field tokenData ''chain''))
                          (JStr ''solana''),
          p_logo = js_or (js_or (js_field tokenData ''logo'') (js_field tokenData ''image''))
                         (JStr []),
          p_category = JStr ''new''\<rparr>)"

definition POST :: "js_runtime \<Rightarrow> post_request \<Rightarrow> payload list \<Rightarrow> http_response \<times> payload list" where
  "POST rt req triggered =
     (case req_json req of
        None \<Rightarrow> (Failure, triggered)
      | Some body \<Rightarrow>
         (case get_prop body ''data'' of
            Inl e \<Rightarrow> (Failure, triggered)
          | Inr d \<Rightarrow>
             (let tokenData = js_or d body
              in case webhookToken rt (req_now req) (req_random req) tokenData of
                   Inl e \<Rightarrow> (Failure, triggered)
                 | Inr token \<Rightarrow>
                     (if req_trigger_ok req then Success (p_symbol token) else Failure,
                      triggered @ [token]))))"

section \<open>The poller\<close>

text \<open>
  \<^verbatim>\<open>src/scripts/mobula-poller.ts\<close>. A \<^verbatim>\<open>MobulaToken\<close> is built from provider JSON through
  \<^verbatim>\<open>any\<close>, so at run time its fields are untyped values; an absent field is
  \<^verbatim>\<open>undefined\<close>.
\<close>

record MobulaToken =
  m_id :: jsval
  m_address :: jsval
  m_symbol :: jsval
  m_name :: jsval
  m_price :: jsval
  m_priceChange24h :: jsval
  m_volume :: jsval
  m_volume24h :: jsval
  m_marketCap :: jsval
  m_market_cap :: jsval
  m_liquidity :: jsval
  m_holders :: jsval
  m_blockchain :: jsval
  m_logo :: jsval
  m_image :: jsval
  m_createdAt :: jsval

definition BLOCKCHAIN :: string where
  "BLOCKCHAIN = ''solana''"

text \<open>
  \<^verbatim>\<open>seenTokenIds\<close> is a \<^verbatim>\<open>Set\<close>, kept here as the list of its members in insertion order.
  Membership in a \<^verbatim>\<open>Set\<close> compares strings, numbers and the like by value and objects
  by reference; every object that reaches the poller is freshly parsed, hence never a
  member.
\<close>

fun seen_has :: "jsval list \<Rightarrow> jsval \<Rightarrow> bool" where
  "seen_has seen (JObj kvs) = False"
| "seen_has seen (JArr xs) = False"
| "seen_has seen v = (v \<in> set seen)"

definition seen_add :: "jsval list \<Rightarrow> jsval \<Rightarrow> jsval list" where
  "seen_add seen v = (if seen_has seen v then seen else seen @ [v])"

record poller_state =
  seenTokenIds :: "jsval list"
  triggered :: "payload list"

definition formattedToken :: "js_runtime \<Rightarrow> nat \<Rightarrow> real \<Rightarrow> MobulaToken \<Rightarrow> js_error + payload" where
  "formattedToken rt now r token =
     (let tokenId = js_or (js_or (m_id token) (m_address token)) (JStr (decimal now))
      in case opt_toUpperCase (m_symbol token) of
           Inl e \<Rightarrow> Inl e
         | Inr upper \<Rightarrow> Inr
            \<lparr>p_id = tokenId,
             p_symbol = js_or upper (JStr ''UNKNOWN''),
             p_name = js_or (m_name token) (JStr ''New Token''),
             p_price = js_or (m_price token) (JNum (Fin 0)),
             p_priceChange24h = js_or (m_priceChange24h token) (JNum (Fin 0)),
             p_volume24h = js_or (js_or (m_volume24h token) (m_volume token)) (JNum (Fin 0)),
             p_marketCap = js_or (js_or (m_marketCap token) (m_market_cap token)) (JNum (Fin 0)),
             p_liquidity = js_or (m_liquidity token)
                             (js_times (rt_toNumber rt)
                                (js_or (js_or (m_volume24h token) (m_volume token)) (JNum (Fin 0)))
                                0.3),
             p_holders = js_or (m_holders token) (randomHolders r),
             p_chain = js_or (m_blockchain token) (JStr BLOCKCHAIN),
             p_logo = js_or (js_or (m_logo token) (m_image token)) (JStr []),
             p_category = JStr ''new''\<rparr>)"

text \<open>
  \<^verbatim>\<open>broadcastNewToken\<close> catches whatever its body throws, a \<^verbatim>\<open>TypeError\<close> of the symbol
  as well as a rejected \<^verbatim>\<open>pusher.trigger\<close>, and only logs it: it returns normally
  either way, and the list of trigger calls does not depend on the broker's answer.
\<close>

definition broadcastNewToken ::
    "js_runtime \<Rightarrow> nat \<Rightarrow> real \<Rightarrow> MobulaToken \<Rightarrow> payload list \<Rightarrow> payload list" where
  "broadcastNewToken rt now r token trig =
     (case formattedToken rt now r token of
        Inl e \<Rightarrow> trig
      | Inr formatted \<Rightarrow> trig @ [formatted])"

text \<open>
  One poll cycle on the tokens that \<^verbatim>\<open>fetchNewlyCreatedTokens\<close> returned. \<open>c_random i\<close> is
  the draw of \<^verbatim>\<open>Math.random()\<close> available to the token at position \<open>i\<close>.
\<close>

record cycle =
  c_now :: nat
  c_random :: "nat \<Rightarrow> real"

fun pollLoop ::
    "js_runtime \<Rightarrow> cycle \<Rightarrow> nat \<Rightarrow> MobulaToken list \<Rightarrow> poller_state \<Rightarrow> poller_state" where
  "pollLoop rt c i [] st = st"
| "pollLoop rt c i (token # rest) st =
     (let tokenId = js_or (m_id token) (m_address token)
      in if \<not> truthy tokenId then pollLoop rt c (i + 1) rest st
         else if seen_has (seenTokenIds st) tokenId then pollLoop rt c (i + 1) rest st
         else pollLoop rt c (i + 1) rest
                (st\<lparr>seenTokenIds := seen_add (seenTokenIds st) tokenId,
                     triggered := broadcastNewToken rt (c_now c) (c_random c i) token
                                    (triggered st)\<rparr>))"

fun seedSeen :: "MobulaToken list \<Rightarrow> poller_state \<Rightarrow> poller_state" where
  "seedSeen [] st = st"
| "seedSeen (token # rest) st =
     (let tokenId = js_or (m_id token) (m_address token)
      in if truthy tokenId
         then seedSeen rest (st\<lparr>seenTokenIds := seen_add (seenTokenIds st) tokenId\<rparr>)
         else seedSeen rest st)"

text \<open>
  The life of the poller process on the adapter's results: the startup batch goes to
  \<^verbatim>\<open>initializeSeenTokens\<close>, every later batch to \<^verbatim>\<open>pollAndBroadcast\<close>.
\<close>

definition pollerStart :: poller_state where
  "pollerStart = \<lparr>seenTokenIds = [], triggered = []\<rparr>"

fun pollCycles ::
    "js_runtime \<Rightarrow> (cycle \<times> MobulaToken list) list \<Rightarrow> poller_state \<Rightarrow> poller_state" where
  "pollCycles rt [] st = st"
| "pollCycles rt ((c, tokens) # rest) st = pollCycles rt rest (pollLoop rt c 0 tokens st)"

definition runPoller ::
    "js_runtime \<Rightarrow> MobulaToken list \<Rightarrow> (cycle \<times> MobulaToken list) list \<Rightarrow> poller_state" where
  "runPoller rt initialTokens cycles = pollCycles rt cycles (seedSeen initialTokens pollerStart)"

text \<open>How often an identifier was passed to \<^verbatim>\<open>pusher.trigger\<close>.\<close>

definition timesTriggered :: "jsval \<Rightarrow> payload list \<Rightarrow> nat" where
  "timesTriggered v trig = length (filter (\<lambda>p. p_id p = v) trig)"

text \<open>\<^verbatim>\<open>token.id || token.address\<close>, and the values that a \<^verbatim>\<open>Set\<close> compares by value.\<close>

definition tokenId :: "MobulaToken \<Rightarrow> jsval" where
  "tokenId token = js_or (m_id token) (m_address token)"

fun is_primitive :: "jsval \<Rightarrow> bool" where
  "is_primitive (JObj kvs) = False"
| "is_primitive (JArr xs) = False"
| "is_primitive v = True"

text \<open>
  The invariant of the poller: an identifier compared by value was triggered at most
  once, every triggered identifier is in the seen set, and the seen set holds truthy
  values only. The second invariant is relative to a set \<open>S\<close> of identifiers that were
  seen before anything was triggered.
\<close>

definition poller_inv :: "poller_state \<Rightarrow> bool" where
  "poller_inv st =
     ((\<forall>v. is_primitive v \<longrightarrow> timesTriggered v (triggered st) \<le> 1) \<and>
      (\<forall>p\<in>set (triggered st). p_id p \<in> set (seenTokenIds st)) \<and>
      (\<forall>v\<in>set (seenTokenIds st). truthy v))"

definition suppressed :: "jsval set \<Rightarrow> poller_state \<Rightarrow> bool" where
  "suppressed S st =
     (S \<subseteq> set (seenTokenIds st) \<and>
      (\<forall>p\<in>set (triggered st). is_primitive (p_id p) \<longrightarrow> p_id p \<notin> S))"

section \<open>The source adapter\<close>

text \<open>
  \<^verbatim>\<open>fetchNewlyCreatedTokens\<close> and \<^verbatim>\<open>fetchFromCoinGecko\<close>. The outcome of one \<^verbatim>\<open>fetch\<close> is
  an exception or a response with its \<^verbatim>\<open>ok\<close> flag, its status and the outcome of
  \<^verbatim>\<open>response.json()\<close> (\<open>None\<close> when that rejects). \<open>f_random k\<close> is the draw of
  \<^verbatim>\<open>Math.random()\<close> for the coin at position \<open>k\<close>, \<open>f_isoNow\<close> the string of
  \<^verbatim>\<open>new Date().toISOString()\<close>.
\<close>

datatype fetch_result = FetchThrows | Response bool nat "jsval option"

record fetch_env =
  f_dexscreener :: fetch_result
  f_coingecko :: fetch_result
  f_random :: "nat \<Rightarrow> real"
  f_isoNow :: string

definition pairToken :: "js_runtime \<Rightarrow> jsval \<Rightarrow> js_error + MobulaToken" where
  "pairToken rt pair =
     (case get_prop pair ''pairAddress'' of
        Inl e \<Rightarrow> Inl e
      | Inr pairAddress \<Rightarrow> Inr
         \<lparr>m_id = pairAddress,
          m_address = opt_prop (js_field pair ''baseToken'') ''address'',
          m_symbol = opt_prop (js_field pair ''baseToken'') ''symbol'',
          m_name = opt_prop (js_field pair ''baseToken'') ''name'',
          m_price = (if truthy (js_field pair ''priceUsd'')
                     then JNum (rt_parseFloat rt (js_field pair ''priceUsd''))
                     else JNum (Fin 0)),
          m_priceChange24h = js_or (opt_prop (js_field pair ''priceChange'') ''h24'') (JNum (Fin 0)),
          m_volume = JUndefined,
          m_volume24h = js_or (opt_prop (js_field pair ''volume'') ''h24'') (JNum (Fin 0)),
          m_marketCap = js_or (js_field pair ''fdv'') (JNum (Fin 0)),
          m_market_cap = JUndefined,
          m_liquidity = js_or (opt_prop (js_field pair ''liquidity'') ''usd'') (JNum (Fin 0)),
          m_holders = JUndefined,
          m_blockchain = JStr ''solana'',
          m_logo = opt_prop (js_field pair ''info'') ''imageUrl'',
          m_image = JUndefined,
          m_createdAt = js_field pair ''pairCreatedAt''\<rparr>)"

definition coinToken :: "js_runtime \<Rightarrow> fetch_env \<Rightarrow> nat \<times> jsval \<Rightarrow> js_error + MobulaToken" where
  "coinToken rt env kc =
     (case kc of (k, coin) \<Rightarrow>
        (case get_prop coin ''id'' of
           Inl e \<Rightarrow> Inl e
         | Inr coin_id \<Rightarrow> Inr
            \<lparr>m_id = coin_id,
             m_address = coin_id,
             m_symbol = js_field coin ''symbol'',
             m_name = js_field coin ''name'',
             m_price = js_or (js_field coin ''current_price'') (JNum (Fin 0)),
             m_priceChange24h = js_or (js_field coin ''price_change_percentage_24h'') (JNum (Fin 0)),
             m_volume = JUndefined,
             m_volume24h = js_or (js_field coin ''total_volume'') (JNum (Fin 0)),
             m_marketCap = js_or (js_field coin ''market_cap'') (JNum (Fin 0)),
             m_market_cap = JUndefined,
             m_liquidity = js_times (rt_toNumber rt)
                             (js_or (js_field coin ''total_volume'') (JNum (Fin 0))) 0.3,
             m_holders = randomHolders (f_random env k),
             m_blockchain = JStr ''ethereum'',
             m_logo = js_field coin ''image'',
             m_image = JUndefined,
             m_createdAt = JStr (f_isoNow env)\<rparr>))"

text \<open>
  The body of the \<^verbatim>\<open>try\<close> of \<^verbatim>\<open>fetchFromCoinGecko\<close>: \<^verbatim>\<open>data.length\<close> is read for the log
  line and throws on \<^verbatim>\<open>null\<close>; \<^verbatim>\<open>data.map\<close> is callable on an array only.
\<close>

definition coinGeckoBody :: "js_runtime \<Rightarrow> fetch_env \<Rightarrow> js_error + MobulaToken list" where
  "coinGeckoBody rt env =
     (case f_coingecko env of
        FetchThrows \<Rightarrow> Inl FetchFailed
      | Response ok st json \<Rightarrow>
         (if \<not> ok then Inr []
          else case json of
                 None \<Rightarrow> Inl JsonFailed
               | Some data \<Rightarrow>
                  (case get_prop data ''length'' of
                     Inl e \<Rightarrow> Inl e
                   | Inr n \<Rightarrow>
                      (case data of
                         JArr coins \<Rightarrow> mapE (coinToken rt env) (enumerate 0 coins)
                       | _ \<Rightarrow> Inl TypeError))))"

definition fetchFromCoinGecko :: "js_runtime \<Rightarrow> fetch_env \<Rightarrow> js_error + MobulaToken list" where
  "fetchFromCoinGecko rt env = try_catch (coinGeckoBody rt env) (\<lambda>error. Inr [])"

text \<open>
  The body of the \<^verbatim>\<open>try\<close> of \<^verbatim>\<open>fetchNewlyCreatedTokens\<close>. \<open>Inr None\<close> stands for reaching
  the statements after the \<^verbatim>\<open>if (response.ok)\<close> block, which call the fallback. With
  \<^verbatim>\<open>pairs\<close> truthy and not an array, a non-empty string passes the length test and then
  throws, since a string has no \<^verbatim>\<open>map\<close>; any other value either fails the length test or
  throws at \<^verbatim>\<open>slice\<close>, and as the handler and the statements after the block both call
  the fallback, it is taken here to fail the test.
\<close>

definition dexScreenerBody :: "js_runtime \<Rightarrow> fetch_env \<Rightarrow> js_error + MobulaToken list option" where
  "dexScreenerBody rt env =
     (case f_dexscreener env of
        FetchThrows \<Rightarrow> Inl FetchFailed
      | Response ok st json \<Rightarrow>
         (if ok then
            (case json of
               None \<Rightarrow> Inl JsonFailed
             | Some data \<Rightarrow>
                (case get_prop data ''pairs'' of
                   Inl e \<Rightarrow> Inl e
                 | Inr dataPairs \<Rightarrow>
                    (case js_or dataPairs (JArr []) of
                       JArr pairs \<Rightarrow>
                         (if length pairs > 0
                          then (case mapE (pairToken rt) (take 20 pairs) of
                                  Inl e \<Rightarrow> Inl e
                                | Inr tokens \<Rightarrow> Inr (Some tokens))
                          else Inr None)
                     | JStr s \<Rightarrow> Inl TypeError
                     | _ \<Rightarrow> Inr None)))
          else Inr None))"

definition fetchNewlyCreatedTokens :: "js_runtime \<Rightarrow> fetch_env \<Rightarrow> js_error + MobulaToken list" where
  "fetchNewlyCreatedTokens rt env =
     try_catch
       (case dexScreenerBody rt env of
          Inl e \<Rightarrow> Inl e
        | Inr (Some tokens) \<Rightarrow> Inr tokens
        | Inr None \<Rightarrow> fetchFromCoinGecko rt env)
       (\<lambda>error. fetchFromCoinGecko rt env)"

text \<open>
  \<^verbatim>\<open>initializeSeenTokens\<close> and \<^verbatim>\<open>pollAndBroadcast\<close> with their fetch: neither has a
  \<^verbatim>\<open>try\<close> of its own, so an exception of the adapter would leave them.
\<close>

definition initializeSeenTokens ::
    "js_runtime \<Rightarrow> fetch_env \<Rightarrow> poller_state \<Rightarrow> js_error + poller_state" where
  "initializeSeenTokens rt env st =
     (case fetchNewlyCreatedTokens rt env of
        Inl e \<Rightarrow> Inl e
      | Inr initialTokens \<Rightarrow> Inr (seedSeen initialTokens st))"

definition pollAndBroadcast ::
    "js_runtime \<Rightarrow> fetch_env \<Rightarrow> cycle \<Rightarrow> poller_state \<Rightarrow> js_error + poller_state" where
  "pollAndBroadcast rt env c st =
     (case fetchNewlyCreatedTokens rt env of
        Inl e \<Rightarrow> Inl e
      | Inr tokens \<Rightarrow> Inr (pollLoop rt c 0 tokens st))"

text \<open>When the primary provider counts as failed: an exception, a status that is not OK,
  a body that does not parse, or no pair in the result.\<close>

definition primaryFailed :: "fetch_result \<Rightarrow> bool" where
  "primaryFailed r =
     (case r of
        FetchThrows \<Rightarrow> True
      | Response ok st json \<Rightarrow>
          \<not> ok \<or>
          (case json of
             None \<Rightarrow> True
           | Some data \<Rightarrow>
              (case get_prop data ''pairs'' of
                 Inl e \<Rightarrow> True
               | Inr dataPairs \<Rightarrow> js_or dataPairs (JArr []) = JArr [])))"

section \<open>The subscription manager\<close>

text \<open>
  \<^verbatim>\<open>src/hooks/use-pusher-updates.ts\<close>. The four module-level variables are the state; the
  two instances are modelled by whether they are non-null. The remaining fields are
  observations, not part of the source: how often \<^verbatim>\<open>new Pusher\<close> ran, how often the
  block that binds the connection handlers ran, how often the channel was subscribed and
  unsubscribed, how many \<^verbatim>\<open>token.created\<close> handlers are bound, how often
  \<^verbatim>\<open>disconnect()\<close> was called, and how many grace timers are waiting.
\<close>

record pusher_state =
  pusherInstance :: bool
  channelInstance :: bool
  subscriberCount :: int
  connectionHandlersBound :: bool
  connects :: nat
  handlerBindings :: nat
  subscribes :: nat
  unsubscribes :: nat
  tokenHandlers :: nat
  disconnects :: nat
  pendingTimers :: nat

definition moduleStart :: pusher_state where
  "moduleStart =
     \<lparr>pusherInstance = False, channelInstance = False, subscriberCount = 0,
      connectionHandlersBound = False, connects = 0, handlerBindings = 0, subscribes = 0,
      unsubscribes = 0, tokenHandlers = 0, disconnects = 0, pendingTimers = 0\<rparr>"

text \<open>The body of the effect: one mount of \<^verbatim>\<open>usePusherTokenUpdates\<close>.\<close>

definition acquire :: "pusher_state \<Rightarrow> pusher_state" where
  "acquire st =
     (let st1 = (if \<not> pusherInstance st
                 then (let s = st\<lparr>pusherInstance := True, connects := connects st + 1\<rparr>
                       in if \<not> connectionHandlersBound s
                          then s\<lparr>handlerBindings := handlerBindings s + 1,
                                 connectionHandlersBound := True\<rparr>
                          else s)
                 else st);
          st2 = st1\<lparr>subscriberCount := subscriberCount st1 + 1\<rparr>;
          st3 = (if \<not> channelInstance st2
                 then st2\<lparr>channelInstance := True, subscribes := subscribes st2 + 1\<rparr>
                 else st2)
      in st3\<lparr>tokenHandlers := tokenHandlers st3 + 1\<rparr>)"

text \<open>The cleanup of the effect: one unmount. At count zero it starts a grace timer.\<close>

definition release :: "pusher_state \<Rightarrow> pusher_state" where
  "release st =
     (let st1 = st\<lparr>subscriberCount := subscriberCount st - 1\<rparr>;
          st2 = (if channelInstance st1
                 then st1\<lparr>tokenHandlers := tokenHandlers st1 - 1\<rparr> else st1)
      in if subscriberCount st2 = 0
         then st2\<lparr>pendingTimers := pendingTimers st2 + 1\<rparr>
         else st2)"

text \<open>The callback of a grace timer, 100 ms after the release that started it.\<close>

definition teardown :: "pusher_state \<Rightarrow> pusher_state" where
  "teardown st =
     (if subscriberCount st = 0 then
        (let st1 = (if channelInstance st \<and> pusherInstance st
                    then st\<lparr>tokenHandlers := 0, unsubscribes := unsubscribes st + 1,
                            channelInstance := False\<rparr>
                    else st)
         in if pusherInstance st1
            then st1\<lparr>disconnects := disconnects st1 + 1, pusherInstance := False,
                     connectionHandlersBound := False\<rparr>
            else st1)
      else st)"

definition elapse :: "pusher_state \<Rightarrow> pusher_state" where
  "elapse st =
     (if pendingTimers st = 0 then st
      else teardown (st\<lparr>pendingTimers := pendingTimers st - 1\<rparr>))"

datatype sub_event = Acquire | Release | Elapse

fun subStep :: "pusher_state \<Rightarrow> sub_event \<Rightarrow> pusher_state" where
  "subStep st Acquire = acquire st"
| "subStep st Release = release st"
| "subStep st Elapse = elapse st"

definition runSub :: "pusher_state \<Rightarrow> sub_event list \<Rightarrow> pusher_state" where
  "runSub st evs = foldl subStep st evs"

text \<open>The grace period passes with no further call: every waiting timer fires.\<close>

definition elapseAll :: "pusher_state \<Rightarrow> pusher_state" where
  "elapseAll st = (elapse ^^ pendingTimers st) st"

text \<open>
  A run of mounts, unmounts and timer firings, starting with \<open>n\<close> mounted hooks, in
  which a release belongs to a hook that is mounted, no hook is mounted in the end, and
  no mount follows a timer that fired at count zero: a timer may fire while a hook is
  mounted, where its callback does nothing, and at count zero only when nothing but
  further timers follows.
\<close>

fun balanced :: "nat \<Rightarrow> sub_event list \<Rightarrow> bool" where
  "balanced n [] = (n = 0)"
| "balanced n (Acquire # evs) = balanced (n + 1) evs"
| "balanced n (Release # evs) = (0 < n \<and> balanced (n - 1) evs)"
| "balanced n (Elapse # evs) =
     (if 0 < n then balanced n evs else list_all (\<lambda>ev. ev = Elapse) evs)"

text \<open>
  The invariant of such a run before any teardown, with \<open>n\<close> hooks mounted: the
  connection and the channel exist, the count is \<open>n\<close>, and a timer waits whenever the
  count is zero.
\<close>

definition live :: "nat \<Rightarrow> pusher_state \<Rightarrow> bool" where
  "live n st =
     (pusherInstance st \<and> channelInstance st \<and> subscriberCount st = int n \<and>
      (n = 0 \<longrightarrow> 0 < pendingTimers st))"

section \<open>Inputs of the scenarios\<close>

definition plainRuntime :: js_runtime where
  "plainRuntime = \<lparr>rt_toNumber = (\<lambda>v. NaN), rt_parseFloat = (\<lambda>v. NaN)\<rparr>"

definition cycleZero :: cycle where
  "cycleZero = \<lparr>c_now = 0, c_random = (\<lambda>i. 0)\<rparr>"

definition noToken :: MobulaToken where
  "noToken =
     \<lparr>m_id = JUndefined, m_address = JUndefined, m_symbol = JUndefined, m_name = JUndefined,
      m_price = JUndefined, m_priceChange24h = JUndefined, m_volume = JUndefined,
      m_volume24h = JUndefined, m_marketCap = JUndefined, m_market_cap = JUndefined,
      m_liquidity = JUndefined, m_holders = JUndefined, m_blockchain = JUndefined,
      m_logo = JUndefined, m_image = JUndefined, m_createdAt = JUndefined\<rparr>"

definition mobulaX1 :: MobulaToken where
  "mobulaX1 = noToken\<lparr>m_id := JStr ''x1'', m_price := JNum (Fin 1)\<rparr>"

definition mobulaX2 :: MobulaToken where
  "mobulaX2 = noToken\<lparr>m_id := JStr ''x2'', m_price := JNum (Fin 2)\<rparr>"

text \<open>The webhook bodies \<^verbatim>\<open>{"data":{"id":"x2"}}\<close> and
  \<^verbatim>\<open>{"data":{"symbol":"TEST","price":1.23}}\<close>, and two variations of the latter.\<close>

definition postX2 :: post_request where
  "postX2 = \<lparr>req_json = Some (JObj [(''data'', JObj [(''id'', JStr ''x2'')])]),
             req_now = 1700000000000, req_random = 0, req_trigger_ok = True\<rparr>"




text \<open>Provider outcomes: the primary throws and the fallback returns one coin; both fail.\<close>

definition envFallback :: fetch_env where
  "envFallback =
     \<lparr>f_dexscreener = FetchThrows,
      f_coingecko = Response True 200
         (Some (JArr [JObj [(''id'', JStr ''bitcoin''), (''symbol'', JStr ''btc'')]])),
      f_random = (\<lambda>k. 0), f_isoNow = ''2025-01-01T00:00:00.000Z''\<rparr>"

definition envDown :: fetch_env where
  "envDown =
     \<lparr>f_dexscreener = Response False 429 None, f_coingecko = FetchThrows,
      f_random = (\<lambda>k. 0), f_isoNow = ''2025-01-01T00:00:00.000Z''\<rparr>"

section \<open>Properties of the buffer\<close>

lemma shift_tl: "shift xs = tl xs"
  by (cases xs) (simp_all add: shift_def)

lemma appendDataPoint_within:
  "length buf \<le> cap \<Longrightarrow>
     appendDataPoint cap buf p = drop (Suc (length buf) - cap) (buf @ [p])"
proof (cases "length buf = cap")
  case True
  then show ?thesis
    by (cases buf) (simp_all add: appendDataPoint_def shift_def)
next
  case False
  assume "length buf \<le> cap"
  with False have "length buf < cap" by simp
  then show ?thesis
    by (simp add: appendDataPoint_def)
qed

lemma appendDataPoint_length:
  "length buf \<le> cap \<Longrightarrow> length (appendDataPoint cap buf p) \<le> cap"
  by (simp add: appendDataPoint_within)

lemma appendAll_within:
  "length buf \<le> cap \<Longrightarrow>
     appendAll cap buf ps = drop (length buf + length ps - cap) (buf @ ps)"
proof (induction ps arbitrary: buf)
  case Nil
  then show ?case by simp
next
  case (Cons p ps)
  let ?b = "appendDataPoint cap buf p"
  have len: "length ?b \<le> cap"
    using Cons.prems by (rule appendDataPoint_length)
  have b: "?b = drop (Suc (length buf) - cap) (buf @ [p])"
    using Cons.prems by (rule appendDataPoint_within)
  have "appendAll cap buf (p # ps) = drop (length ?b + length ps - cap) (?b @ ps)"
    using Cons.IH [OF len] by simp
  also have "\<dots> = drop (length buf + length (p # ps) - cap) (buf @ p # ps)"
  proof (cases "length buf = cap")
    case True
    then show ?thesis using b by (cases buf) simp_all
  next
    case False
    with Cons.prems have "length buf < cap" by simp
    then show ?thesis using b by simp
  qed
  finally show ?case .
qed

lemma appendDataPoint_never_longer:
  "length (appendDataPoint cap buf p) \<le> max cap (length buf)"
  by (cases buf) (auto simp: appendDataPoint_def shift_def Let_def)

lemma appendAll_never_longer: "length (appendAll cap buf ps) \<le> max cap (length buf)"
proof (induction ps arbitrary: buf)
  case Nil
  then show ?case by simp
next
  case (Cons p ps)
  have "length (appendAll cap (appendDataPoint cap buf p) ps)
          \<le> max cap (length (appendDataPoint cap buf p))"
    by (rule Cons.IH)
  also have "\<dots> \<le> max cap (length buf)"
    using appendDataPoint_never_longer [of cap buf p] by simp
  finally show ?case by simp
qed

lemma priceEffect_appends:
  "lastPriceRef st \<noteq> price token \<Longrightarrow>
     dataPointsRef (priceEffect token opts now st)
       = appendDataPoint (maxDataPoints opts) (dataPointsRef st)
           \<lparr>time = now, value' = Fin (price token)\<rparr>"
  by (simp add: priceEffect_def appendDataPoint_def Let_def)

text \<open>
  Within its capacity the buffer is a bounded queue: it stays within the capacity under
  every sequence of appends and holds the most recent \<open>cap\<close> points of the old content
  followed by the appended points, in order. 101 appends on an empty buffer of capacity
  100 leave exactly 100 points, the first appended point being the one removed. Whatever
  the buffer holds at the start, no sequence of appends makes it longer than the larger
  of its capacity and its length at the start.
\<close>

lemma appendAll_bounded_fifo:
  "(length buf \<le> cap \<longrightarrow>
      length (appendAll cap buf ps) \<le> cap \<and>
      appendAll cap buf ps = drop (length buf + length ps - cap) (buf @ ps)) \<and>
   (length ps = 101 \<longrightarrow>
      length (appendAll 100 [] ps) = 100 \<and> appendAll 100 [] ps = tl ps) \<and>
   length (appendAll cap buf ps) \<le> max cap (length buf)"
proof (intro conjI impI)
  assume h: "length buf \<le> cap"
  show "appendAll cap buf ps = drop (length buf + length ps - cap) (buf @ ps)"
    using h by (rule appendAll_within)
  then show "length (appendAll cap buf ps) \<le> cap"
    using h by simp
next
  assume h: "length ps = 101"
  have e: "appendAll 100 [] ps = drop 1 ps"
    using appendAll_within [of "[]" 100 ps] h by simp
  show "appendAll 100 [] ps = tl ps"
    using e by (simp add: drop_Suc)
  show "length (appendAll 100 [] ps) = 100"
    using e h by simp
next
  show "length (appendAll cap buf ps) \<le> max cap (length buf)"
    by (rule appendAll_never_longer)
qed

text \<open>
  A buffer that is longer than the capacity is never brought back to it: each append
  pushes one point and shifts one out.
\<close>

lemma appendDataPoint_over_capacity:
  "cap < length buf \<Longrightarrow> length (appendDataPoint cap buf p) = length buf"
  by (cases buf) (simp_all add: appendDataPoint_def shift_def)

lemma appendAll_over_capacity:
  "cap < length buf \<Longrightarrow> length (appendAll cap buf ps) = length buf"
  by (induction ps arbitrary: buf) (simp_all add: appendDataPoint_over_capacity)

section \<open>Properties of seeding\<close>

lemma progress_first: "2 \<le> N \<Longrightarrow> progress N 0 = Fin 0"
  by (simp add: progress_def js_sub_def)

lemma progress_last: "2 \<le> N \<Longrightarrow> progress N (N - 1) = Fin 1"
  by (simp add: progress_def js_sub_def of_nat_diff)

lemma smoothProgress_0: "smoothProgress (Fin 0) = Fin 0"
  by (simp add: smoothProgress_def)

lemma smoothProgress_1: "smoothProgress (Fin 1) = Fin 1"
  by (simp add: smoothProgress_def js_pow2_def js_sub_def)

lemma startPrice_fin:
  "priceChange24h token \<noteq> - 100 \<Longrightarrow>
     startPrice token = Fin (price token / (1 + priceChange24h token / 100))"
  by (simp add: startPrice_def add_eq_0_iff)

lemma sin_4pi: "sin (pi * 4 + x) = sin (x::real)"
proof -
  have "sin (pi * 4 + x) = sin ((x + 2 * pi) + 2 * pi)" by (simp add: algebra_simps)
  then show ?thesis by (simp only: sin_periodic)
qed

lemma sin_2pi: "sin (pi * 2 + x) = sin (x::real)"
  using sin_periodic [of x] by (simp add: add.commute mult.commute)

lemma js_max_fin: "js_max (Fin a) (Fin b) = Fin (max a b)"
  by (simp add: max_def)

lemma seedValue_last:
  assumes "2 \<le> N" "priceChange24h token \<noteq> - 100" "tokenSeed token = Fin s"
  shows "seedValue token N (N - 1) =
     Fin (max (price token + (sin s * price token * 0.008 + sin (s * 2) * price token * 0.004))
              (price token * 0.5))"
  unfolding seedValue_def Let_def progress_last [OF assms(1)] smoothProgress_1
    startPrice_fin [OF assms(2)] assms(3)
  by (simp add: js_sub_def sin_2pi sin_4pi js_max_fin del: js_max.simps)

lemma seedValue_first:
  assumes "2 \<le> N" "priceChange24h token \<noteq> - 100" "tokenSeed token = Fin s"
  shows "seedValue token N 0 =
     Fin (max (price token / (1 + priceChange24h token / 100)
               + (sin s * price token * 0.008 + sin (s * 2) * price token * 0.004))
              (price token * 0.5))"
  unfolding seedValue_def Let_def progress_first [OF assms(1)] smoothProgress_0
    startPrice_fin [OF assms(2)] assms(3)
  by (simp add: js_sub_def js_max_fin del: js_max.simps)

lemma js_max_clamped: "js_max v (Fin h) = NaN \<or> js_ge (js_max v (Fin h)) (Fin h)"
  by (cases v) (auto simp: js_ge_def)

lemma seedValue_clamped:
  "seedValue token N i = NaN \<or> js_ge (seedValue token N i) (Fin (price token * 0.5))"
  unfolding seedValue_def Let_def by (simp only: js_mul.simps js_max_clamped)

lemma smoothProgress_range:
  assumes "i < N"
  shows "smoothProgress (progress N i) = NaN \<or> (\<exists>y\<ge>0. smoothProgress (progress N i) = Fin y)"
proof (cases "N = 1")
  case True
  with assms have "progress N i = NaN" by (simp add: progress_def js_sub_def)
  then show ?thesis by (simp add: smoothProgress_def js_sub_def js_pow2_def)
next
  case False
  with assms have n: "2 \<le> N" by simp
  define x where "x = real i / (real N - 1)"
  have p: "progress N i = Fin x"
    using n by (simp add: progress_def js_sub_def x_def)
  have x0: "0 \<le> x" using n by (simp add: x_def)
  have x1: "x \<le> 1" using n assms by (simp add: x_def)
  show ?thesis
  proof (cases "x < 0.5")
    case True
    then have "smoothProgress (progress N i) = Fin (2 * x * x)"
      by (simp add: p smoothProgress_def)
    moreover have "0 \<le> 2 * x * x" using x0 by simp
    ultimately show ?thesis by blast
  next
    case False
    then have s: "smoothProgress (progress N i) = Fin (1 - ((- 2 * x + 2) * (- 2 * x + 2)) / 2)"
      by (simp add: p smoothProgress_def js_sub_def js_pow2_def)
    have a: "0 \<le> - 2 * x + 2" and b: "- 2 * x + 2 \<le> 1" using x1 False by simp_all
    have "(- 2 * x + 2) * (- 2 * x + 2) \<le> 1 * 1"
      using a b by (intro mult_mono) simp_all
    then have "0 \<le> 1 - ((- 2 * x + 2) * (- 2 * x + 2)) / 2" by simp
    with s show ?thesis by blast
  qed
qed

lemma seedValue_minus_100:
  assumes "priceChange24h token = - 100" "i < N"
  shows "seedValue token N i = NaN"
proof -
  have sp: "startPrice token = js_div (Fin (price token)) (Fin 0)"
    using assms(1) by (simp add: startPrice_def)
  have base: "js_add (startPrice token)
        (js_mul (js_sub (Fin (price token)) (startPrice token)) (smoothProgress (progress N i))) = NaN"
    using smoothProgress_range [OF assms(2)]
    by (auto simp: sp js_sub_def inf_times_def)
  show ?thesis
    unfolding seedValue_def Let_def base by simp
qed

lemma wave_one_nonzero: "sin (1::real) * 10 * 0.008 + sin (1 * 2) * 10 * 0.004 \<noteq> 0"
proof -
  have s1: "0 < sin (1::real)" by (rule sin_gt_zero_02) simp_all
  have c1: "cos (1::real) \<noteq> - 1"
  proof
    assume "cos (1::real) = - 1"
    with sin_cos_squared_add [of "1::real"] have "sin (1::real) = 0" by simp
    with s1 show False by simp
  qed
  have m: "- 1 \<le> cos (1::real)" by (rule cos_ge_minus_one)
  from c1 m have c2: "0 < 1 + cos (1::real)" by linarith
  have "sin (1::real) * 10 * 0.008 + sin (1 * 2) * 10 * 0.004
        = 0.08 * (sin 1 * (1 + cos (1::real)))"
    using sin_double [of "1::real"] by (simp add: algebra_simps)
  moreover have "0 < sin 1 * (1 + cos (1::real))" using s1 c2 by simp
  ultimately show ?thesis by simp
qed

lemma tokenSeed_tokenOne: "tokenSeed tokenOne = Fin 1"
  by (simp add: tokenSeed_def tokenOne_def parseInt_def is_ws_def is_digit_def digit_value_def
      digits_value_def)

lemma tokenSeed_tokenX1: "tokenSeed tokenX1 = Fin 88"
  by (simp add: tokenSeed_def tokenX1_def parseInt_def is_ws_def is_digit_def digit_value_def
      digits_value_def charCodeAt0_def)

lemma tokenSeed_tokenX2: "tokenSeed tokenX2 = Fin 88"
  by (simp add: tokenSeed_def tokenX2_def tokenX1_def parseInt_def is_ws_def is_digit_def
      digit_value_def digits_value_def charCodeAt0_def)

lemma seedValue_cong:
  "tokenSeed t1 = tokenSeed t2 \<Longrightarrow> price t1 = price t2 \<Longrightarrow>
   priceChange24h t1 = priceChange24h t2 \<Longrightarrow> seedValue t1 N i = seedValue t2 N i"
  by (simp add: seedValue_def startPrice_def)

lemma generateInitialData_length: "length (generateInitialData token N now) = N"
  by (simp add: generateInitialData_def)

lemma generateInitialData_nth:
  "i < N \<Longrightarrow> generateInitialData token N now ! i = seedPoint token N now i"
  by (simp add: generateInitialData_def)


lemma wave_bound:
  "\<bar>sin s * p * 0.008 + sin (s * 2) * p * 0.004\<bar> \<le> 0.012 * \<bar>p :: real\<bar>"
proof -
  have a: "\<bar>sin s * p * 0.008\<bar> \<le> 1 * \<bar>p\<bar> * 0.008"
    unfolding abs_mult by (intro mult_mono) simp_all
  have b: "\<bar>sin (s * 2) * p * 0.004\<bar> \<le> 1 * \<bar>p\<bar> * 0.004"
    unfolding abs_mult by (intro mult_mono) simp_all
  have "\<bar>sin s * p * 0.008 + sin (s * 2) * p * 0.004\<bar>
          \<le> \<bar>sin s * p * 0.008\<bar> + \<bar>sin (s * 2) * p * 0.004\<bar>"
    by (rule abs_triangle_ineq)
  with a b show ?thesis by simp
qed

lemma tokenSeed_tokenPumped: "tokenSeed tokenPumped = Fin 1"
  by (simp add: tokenSeed_def tokenPumped_def tokenOne_def parseInt_def is_ws_def is_digit_def
      digit_value_def digits_value_def)

text \<open>
  Claim C5, as amended. Seeding is a function of the token's seed (\<^verbatim>\<open>parseInt\<close> of the
  identifier or, when that is \<^verbatim>\<open>NaN\<close> or zero, the first character code of the symbol),
  its price, its 24h change, the number of points and the clock: the values do not
  depend on the clock at all, the time stamps are those of any other call shifted by the
  difference of the two clock readings, and two tokens with the same seed, price and
  change get the same history whatever their identifiers and other fields are.
\<close>

theorem seeding_deterministic:
  "map value' (generateInitialData token N now1) = map value' (generateInitialData token N now2) \<and>
   map time (generateInitialData token N now2)
     = map (\<lambda>t. t + (now2 - now1)) (map time (generateInitialData token N now1)) \<and>
   (tokenSeed t1 = tokenSeed t2 \<and> price t1 = price t2 \<and> priceChange24h t1 = priceChange24h t2
      \<longrightarrow> generateInitialData t1 N now = generateInitialData t2 N now)"
proof (intro conjI impI)
  show "map value' (generateInitialData token N now1) = map value' (generateInitialData token N now2)"
    by (simp add: generateInitialData_def seedPoint_def)
  show "map time (generateInitialData token N now2)
     = map (\<lambda>t. t + (now2 - now1)) (map time (generateInitialData token N now1))"
    by (simp add: generateInitialData_def seedPoint_def)
next
  assume "tokenSeed t1 = tokenSeed t2 \<and> price t1 = price t2 \<and> priceChange24h t1 = priceChange24h t2"
  then have "\<And>i. seedValue t1 N i = seedValue t2 N i"
    by (intro seedValue_cong) simp_all
  then show "generateInitialData t1 N now = generateInitialData t2 N now"
    by (simp add: generateInitialData_def seedPoint_def)
qed

theorem seeding_deterministic_witness:
  "tokenSeed tokenX1 = tokenSeed tokenX2 \<and> price tokenX1 = price tokenX2 \<and>
   priceChange24h tokenX1 = priceChange24h tokenX2 \<and>
   generateInitialData tokenX1 24 0 = generateInitialData tokenX2 24 0"
proof -
  have h: "tokenSeed tokenX1 = tokenSeed tokenX2 \<and> price tokenX1 = price tokenX2 \<and>
           priceChange24h tokenX1 = priceChange24h tokenX2"
    by (simp add: tokenSeed_tokenX1 tokenSeed_tokenX2) (simp add: tokenX2_def)
  with seeding_deterministic [where ?t1.0 = tokenX1 and ?t2.0 = tokenX2 and N = 24 and now = 0]
  show ?thesis by blast
qed

text \<open>
  The claim as stated fails twice. Two calls for the same token at clock readings 0 and 1
  return different histories, since every time stamp is computed from \<^verbatim>\<open>Date.now()\<close>. And
  the tokens with identifiers \<^verbatim>\<open>x1\<close> and \<^verbatim>\<open>x2\<close>, equal otherwise, get the same history:
  \<^verbatim>\<open>parseInt\<close> of both is \<^verbatim>\<open>NaN\<close>, so the seed is the character code of the symbol.
\<close>

theorem seeding_not_byte_identical:
  "generateInitialData tokenX1 24 0 \<noteq> generateInitialData tokenX1 24 1 \<and>
   id' tokenX1 \<noteq> id' tokenX2 \<and>
   generateInitialData tokenX1 24 0 = generateInitialData tokenX2 24 0"
proof (intro conjI)
  show "generateInitialData tokenX1 24 0 \<noteq> generateInitialData tokenX1 24 1"
  proof
    assume "generateInitialData tokenX1 24 0 = generateInitialData tokenX1 24 1"
    then have "time (generateInitialData tokenX1 24 0 ! 0) = time (generateInitialData tokenX1 24 1 ! 0)"
      by simp
    then show False
      by (simp add: generateInitialData_nth seedPoint_def)
  qed
  show "id' tokenX1 \<noteq> id' tokenX2"
    by (simp add: tokenX1_def tokenX2_def)
  have "\<And>i. seedValue tokenX1 24 i = seedValue tokenX2 24 i"
  proof (rule seedValue_cong)
    show "tokenSeed tokenX1 = tokenSeed tokenX2"
      by (simp add: tokenSeed_tokenX1 tokenSeed_tokenX2)
  qed (simp_all add: tokenX2_def)
  then show "generateInitialData tokenX1 24 0 = generateInitialData tokenX2 24 0"
    by (simp add: generateInitialData_def seedPoint_def)
qed

lemma max_shift_bound: "\<bar>max (a + w) b - max a b\<bar> \<le> \<bar>w :: real\<bar>"
  by (simp add: max_def abs_if)

text \<open>
  Claim C6, as amended. The end points are anchored up to the wave, not exactly. With
  at least two points, a price \<open>p\<close> between \<open>1e-300\<close> and \<open>1e300\<close>, a 24h change \<open>c\<close>
  of at least -99 percent and a numeric seed of magnitude at most \<open>2 ^ 53\<close>, the last
  point lies within 1.25 percent of \<open>p\<close> from \<open>p\<close>, and the first point within 1.25
  percent of \<open>p\<close> from the larger of the start price \<open>p / (1 + c / 100)\<close> and \<open>p / 2\<close>.
  The two waves have amplitudes of 0.8 and 0.4 percent of \<open>p\<close>; the bound leaves room
  above their sum for the rounding of the doubles in the source, and the ranges keep
  those doubles away from overflow, underflow and from seeds they cannot hold exactly.
\<close>

theorem seed_anchoring:
  "2 \<le> N \<Longrightarrow> - 99 \<le> priceChange24h token \<Longrightarrow>
   1 / 10 ^ 300 \<le> price token \<Longrightarrow> price token \<le> 10 ^ 300 \<Longrightarrow>
   tokenSeed token = Fin s \<Longrightarrow> \<bar>s\<bar> \<le> 2 ^ 53 \<Longrightarrow>
   \<exists>first last.
     value' (generateInitialData token N now ! 0) = Fin first \<and>
     value' (generateInitialData token N now ! (N - 1)) = Fin last \<and>
     \<bar>last - price token\<bar> \<le> 0.0125 * price token \<and>
     \<bar>first - max (price token / (1 + priceChange24h token / 100)) (price token * 0.5)\<bar>
       \<le> 0.0125 * price token"
proof -
  assume n: "2 \<le> N" and c99: "- 99 \<le> priceChange24h token"
    and lo: "1 / 10 ^ 300 \<le> price token" and s: "tokenSeed token = Fin s"
  define p where "p = price token"
  define start where "start = p / (1 + priceChange24h token / 100)"
  define w where "w = sin s * p * 0.008 + sin (s * 2) * p * 0.004"
  have c: "priceChange24h token \<noteq> - 100" using c99 by simp
  have "(0::real) < 1 / 10 ^ 300" by simp
  with lo have pos: "0 < p" unfolding p_def by linarith
  have wb: "\<bar>w\<bar> \<le> 0.0125 * p"
    using wave_bound [of s p] pos unfolding w_def by simp
  have "generateInitialData token N now ! 0 = seedPoint token N now 0"
    using n by (intro generateInitialData_nth) simp
  then have "value' (generateInitialData token N now ! 0) = seedValue token N 0"
    by (simp add: seedPoint_def)
  then have f: "value' (generateInitialData token N now ! 0) = Fin (max (start + w) (p * 0.5))"
    unfolding seedValue_first [OF n c s] start_def w_def p_def .
  have "generateInitialData token N now ! (N - 1) = seedPoint token N now (N - 1)"
    using n by (intro generateInitialData_nth) simp
  then have "value' (generateInitialData token N now ! (N - 1)) = seedValue token N (N - 1)"
    by (simp add: seedPoint_def)
  then have l: "value' (generateInitialData token N now ! (N - 1)) = Fin (max (p + w) (p * 0.5))"
    unfolding seedValue_last [OF n c s] w_def p_def .
  have "max p (p * 0.5) = p" using pos by simp
  with max_shift_bound [of p w "p * 0.5"] wb
  have lb: "\<bar>max (p + w) (p * 0.5) - p\<bar> \<le> 0.0125 * p" by simp
  from max_shift_bound [of start w "p * 0.5"] wb
  have fb: "\<bar>max (start + w) (p * 0.5) - max start (p * 0.5)\<bar> \<le> 0.0125 * p" by simp
  from f l lb fb show ?thesis
    unfolding p_def start_def by blast
qed

theorem seed_anchoring_witness:
  "(2::nat) \<le> 24 \<and> - 99 \<le> priceChange24h tokenOne \<and> 1 / 10 ^ 300 \<le> price tokenOne \<and>
   price tokenOne \<le> 10 ^ 300 \<and> tokenSeed tokenOne = Fin 1 \<and> \<bar>1 :: real\<bar> \<le> 2 ^ 53 \<and>
   (\<exists>first last.
      value' (generateInitialData tokenOne 24 0 ! 0) = Fin first \<and>
      value' (generateInitialData tokenOne 24 0 ! 23) = Fin last \<and>
      \<bar>last - 10\<bar> \<le> 0.125 \<and> \<bar>first - 8\<bar> \<le> 0.125)"
proof -
  have p: "price tokenOne = 10" and c: "priceChange24h tokenOne = 25"
    by (simp_all add: tokenOne_def)
  have h1: "(2::nat) \<le> 24" by simp
  have h2: "- 99 \<le> priceChange24h tokenOne" by (simp add: c)
  have h3: "1 / 10 ^ 300 \<le> price tokenOne" by (simp add: p)
  have h4: "price tokenOne \<le> 10 ^ 300" by (simp add: p)
  have h6: "\<bar>1 :: real\<bar> \<le> 2 ^ 53" by simp
  from seed_anchoring [OF h1 h2 h3 h4 tokenSeed_tokenOne h6, of 0]
  obtain first last where
    "value' (generateInitialData tokenOne 24 0 ! 0) = Fin first"
    "value' (generateInitialData tokenOne 24 0 ! (24 - 1)) = Fin last"
    "\<bar>last - 10\<bar> \<le> 0.0125 * 10"
    "\<bar>first - max (10 / (1 + 25 / 100)) (10 * 0.5)\<bar> \<le> 0.0125 * 10"
    unfolding p c by blast
  then have "value' (generateInitialData tokenOne 24 0 ! 0) = Fin first \<and>
      value' (generateInitialData tokenOne 24 0 ! 23) = Fin last \<and>
      \<bar>last - 10\<bar> \<le> 0.125 \<and> \<bar>first - 8\<bar> \<le> 0.125"
    by simp
  then have "\<exists>first last.
      value' (generateInitialData tokenOne 24 0 ! 0) = Fin first \<and>
      value' (generateInitialData tokenOne 24 0 ! 23) = Fin last \<and>
      \<bar>last - 10\<bar> \<le> 0.125 \<and> \<bar>first - 8\<bar> \<le> 0.125"
    by blast
  with h1 h2 h3 h4 h6 tokenSeed_tokenOne show ?thesis by blast
qed

text \<open>
  The claim as stated fails at the token with identifier \<^verbatim>\<open>1\<close>, price 10 and a change
  of 25 percent: the wave term does not vanish at the end points, so the last of 24
  points is not 10 and the first is not 8. With a change of 300 percent the first point
  is not 2.5 either: the clamp lifts it to at least 5.
\<close>

theorem seed_end_points_not_exact:
  "value' (generateInitialData tokenOne 24 0 ! 23) \<noteq> Fin (price tokenOne) \<and>
   value' (generateInitialData tokenOne 24 0 ! 0)
     \<noteq> Fin (price tokenOne / (1 + priceChange24h tokenOne / 100)) \<and>
   value' (generateInitialData tokenPumped 24 0 ! 0)
     \<noteq> Fin (price tokenPumped / (1 + priceChange24h tokenPumped / 100))"
proof -
  have p: "price tokenOne = 10" and c: "priceChange24h tokenOne = 25"
    by (simp_all add: tokenOne_def)
  have p': "price tokenPumped = 10" and c': "priceChange24h tokenPumped = 300"
    by (simp_all add: tokenPumped_def tokenOne_def)
  define w :: real where "w = sin 1 * 10 * 0.008 + sin (1 * 2) * 10 * 0.004"
  have w0: "w \<noteq> 0" unfolding w_def by (rule wave_one_nonzero)
  have wb: "\<bar>w\<bar> \<le> 0.12" using wave_bound [of 1 10] by (simp add: w_def)
  have l: "seedValue tokenOne 24 23 = Fin (max (10 + w) 5)"
    using seedValue_last [of 24 tokenOne 1] tokenSeed_tokenOne by (simp add: p c w_def)
  have f: "seedValue tokenOne 24 0 = Fin (max (8 + w) 5)"
    using seedValue_first [of 24 tokenOne 1] tokenSeed_tokenOne by (simp add: p c w_def)
  have f': "seedValue tokenPumped 24 0 = Fin (max (5 / 2 + w) 5)"
    using seedValue_first [of 24 tokenPumped 1] tokenSeed_tokenPumped by (simp add: p' c' w_def)
  have "max (10 + w) 5 \<noteq> 10" using w0 wb by (simp add: max_def)
  moreover have "max (8 + w) 5 \<noteq> 8" using w0 wb by (simp add: max_def)
  moreover have "max (5 / 2 + w) 5 \<noteq> 5 / 2" by (simp add: max_def)
  ultimately show ?thesis
    by (simp add: generateInitialData_nth seedPoint_def l f f' p c p' c')
qed

text \<open>
  Claim C10 at the failing input. For a token with price 10 whose 24h change is -100
  percent the start price is \<^verbatim>\<open>10 / 0\<close>, that is \<^verbatim>\<open>Infinity\<close>; every base value is then
  \<^verbatim>\<open>Infinity + -Infinity\<close> or \<^verbatim>\<open>Infinity + -Infinity * 0\<close>, and \<^verbatim>\<open>Math.max\<close> returns
  \<^verbatim>\<open>NaN\<close> for all 24 points, which is not at least half the price.
\<close>

theorem seed_clamp_nan_at_minus_100:
  "price tokenCrashed = 10 \<and> priceChange24h tokenCrashed = - 100 \<and>
   map value' (generateInitialData tokenCrashed 24 0) = replicate 24 NaN \<and>
   \<not> js_ge NaN (Fin (price tokenCrashed * 0.5))"
proof -
  have c: "priceChange24h tokenCrashed = - 100" by (simp add: tokenCrashed_def)
  have "map value' (generateInitialData tokenCrashed 24 0)
          = map (\<lambda>i. seedValue tokenCrashed 24 i) [0 ..< 24]"
    by (simp add: generateInitialData_def seedPoint_def comp_def)
  also have "\<dots> = map (\<lambda>i. NaN) [0 ..< 24]"
    by (rule map_cong) (simp_all add: seedValue_minus_100 [OF c])
  also have "\<dots> = replicate 24 NaN"
    by (simp add: map_replicate_const)
  finally show ?thesis
    by (simp add: c js_ge_def) (simp add: tokenCrashed_def tokenOne_def)
qed

text \<open>
  Away from that input, in exact arithmetic, the clamp does what the comment in the
  source says. In the doubles of the source the same \<^verbatim>\<open>NaN\<close> also arises when the start
  price overflows.
\<close>

lemma seedValue_at_least_half:
  assumes "2 \<le> N" "priceChange24h token \<noteq> - 100" "tokenSeed token = Fin s" "i < N"
  shows "\<exists>v. seedValue token N i = Fin v \<and> price token * 0.5 \<le> v"
proof -
  define x where "x = real i / (real N - 1)"
  have p: "progress N i = Fin x"
    using assms(1) by (simp add: progress_def js_sub_def x_def)
  obtain y where y: "smoothProgress (Fin x) = Fin y"
    by (cases "x < 0.5") (simp_all add: smoothProgress_def js_sub_def js_pow2_def)
  obtain v where v: "seedValue token N i = Fin (max v (price token * 0.5))"
    unfolding seedValue_def Let_def p y startPrice_fin [OF assms(2)] assms(3)
    by (simp add: js_sub_def js_max_fin del: js_max.simps)
  then show ?thesis by auto
qed


section \<open>Properties of the hook\<close>

lemma initEffect_seeded:
  "initializedTokenRef st = id' token \<Longrightarrow> initEffect token opts now st = st"
  by (simp add: initEffect_def)

lemma priceEffect_keeps:
  "initializedTokenRef (priceEffect token opts now st) = initializedTokenRef st \<and>
   seedCalls (priceEffect token opts now st) = seedCalls st"
  by (simp add: priceEffect_def Let_def)

lemma renderHook_keeps:
  assumes "initializedTokenRef st = id' token"
  shows "initializedTokenRef (renderHook token opts now st) = id' token \<and>
         seedCalls (renderHook token opts now st) = seedCalls st"
  using assms by (simp add: renderHook_def Let_def initEffect_seeded priceEffect_keeps)

lemma hookStep_keeps:
  assumes "initializedTokenRef st = i" "keepsId i ev"
  shows "initializedTokenRef (hookStep st ev) = i \<and> seedCalls (hookStep st ev) = seedCalls st"
proof (cases ev)
  case (Render token opts now)
  with assms renderHook_keeps [of st token opts now] show ?thesis by simp
next
  case Frame
  with assms show ?thesis by (simp add: runFrame_def split: list.splits)
next
  case (Append opts dataPoint)
  with assms show ?thesis by (simp add: hookAppendDataPoint_def Let_def)
qed

lemma runHook_keeps:
  "initializedTokenRef st = i \<Longrightarrow> list_all (keepsId i) evs \<Longrightarrow>
     initializedTokenRef (runHook st evs) = i \<and> seedCalls (runHook st evs) = seedCalls st"
proof (induction evs arbitrary: st)
  case Nil
  then show ?case by (simp add: runHook_def)
next
  case (Cons ev evs)
  from Cons.prems have k: "keepsId i ev" and ks: "list_all (keepsId i) evs" by simp_all
  from hookStep_keeps [OF Cons.prems(1) k]
  have a: "initializedTokenRef (hookStep st ev) = i"
    and b: "seedCalls (hookStep st ev) = seedCalls st" by simp_all
  from Cons.IH [OF a ks] b show ?case by (simp add: runHook_def)
qed

lemma mountHook_seeds:
  "id' token \<noteq> [] \<Longrightarrow>
     initializedTokenRef (mountHook token opts now) = id' token \<and>
     seedCalls (mountHook token opts now) = 1 \<and>
     dataPointsRef (mountHook token opts now)
       = generateInitialData token (initialDataPoints opts) now"
  by (simp add: mountHook_def initEffect_def priceEffect_def Let_def)

text \<open>
  Claim C9. Once the hook is seeded for an identifier, that is once the ref
  \<^verbatim>\<open>initializedTokenRef\<close> holds it, no run of renders with tokens of that identifier
  (whatever their other fields and the options are), animation frames and appends calls
  \<^verbatim>\<open>generateInitialData\<close> again, and the ref keeps the identifier. For a hook mounted
  with a token of non-empty identifier this means exactly one seeding in all.
\<close>

theorem no_reseeding:
  "(initializedTokenRef st = i \<and> list_all (keepsId i) evs \<longrightarrow>
      seedCalls (runHook st evs) = seedCalls st \<and> initializedTokenRef (runHook st evs) = i) \<and>
   (id' token \<noteq> [] \<and> list_all (keepsId (id' token)) evs \<longrightarrow>
      seedCalls (runHook (mountHook token opts now) evs) = 1)"
proof (intro conjI impI)
  assume h: "initializedTokenRef st = i \<and> list_all (keepsId i) evs"
  then show "seedCalls (runHook st evs) = seedCalls st"
    and "initializedTokenRef (runHook st evs) = i"
    using runHook_keeps [of st i evs] by simp_all
next
  assume h: "id' token \<noteq> [] \<and> list_all (keepsId (id' token)) evs"
  then have m: "initializedTokenRef (mountHook token opts now) = id' token"
    and s: "seedCalls (mountHook token opts now) = 1"
    using mountHook_seeds [of token opts now] by simp_all
  from runHook_keeps [OF m] h s show "seedCalls (runHook (mountHook token opts now) evs) = 1"
    by simp
qed

theorem no_reseeding_witness:
  "id' tokenOne \<noteq> [] \<and>
   initializedTokenRef (mountHook tokenOne hookDefaults 0) = ''1'' \<and>
   list_all (keepsId ''1'') rendersOfOne \<and>
   list_all (keepsId (id' tokenOne)) rendersOfOne \<and>
   seedCalls (runHook (mountHook tokenOne hookDefaults 0) rendersOfOne)
     = seedCalls (mountHook tokenOne hookDefaults 0) \<and>
   initializedTokenRef (runHook (mountHook tokenOne hookDefaults 0) rendersOfOne) = ''1'' \<and>
   seedCalls (runHook (mountHook tokenOne hookDefaults 0) rendersOfOne) = 1"
proof -
  have i: "id' tokenOne = ''1''" by (simp add: tokenOne_def)
  have n: "id' tokenOne \<noteq> []" by (simp add: i)
  have m: "initializedTokenRef (mountHook tokenOne hookDefaults 0) = ''1''"
    using mountHook_seeds [OF n, of hookDefaults 0] by (simp add: i)
  have k: "list_all (keepsId ''1'') rendersOfOne"
    by (simp add: rendersOfOne_def tokenOne_def)
  show ?thesis
    using no_reseeding [where st = "mountHook tokenOne hookDefaults 0" and i = "''1''"
        and evs = rendersOfOne and token = tokenOne and opts = hookDefaults and now = 0]
      n m k
    by (simp add: i)
qed


text \<open>
  In the hook the bound holds from the mount on when the seed fits the capacity and the
  options stay the same: seeding writes \<open>initialDataPoints\<close> points, and the two appends
  keep a buffer within its capacity.
\<close>

lemma hookStep_bounded:
  assumes "initialDataPoints opts \<le> maxDataPoints opts"
    and "length (dataPointsRef st) \<le> maxDataPoints opts" and "usesOptions opts ev"
  shows "length (dataPointsRef (hookStep st ev)) \<le> maxDataPoints opts"
proof (cases ev)
  case (Render token opts' now)
  with assms(3) have o: "opts' = opts" by simp
  have i: "length (dataPointsRef (initEffect token opts now s)) \<le> maxDataPoints opts"
    if "length (dataPointsRef s) \<le> maxDataPoints opts" for s
    using that assms(1) by (simp add: initEffect_def Let_def generateInitialData_length)
  have p: "length (dataPointsRef (priceEffect token opts now s)) \<le> maxDataPoints opts"
    if "length (dataPointsRef s) \<le> maxDataPoints opts" for s
  proof (cases "lastPriceRef s = price token")
    case True
    with that show ?thesis by (simp add: priceEffect_def)
  next
    case False
    from priceEffect_appends [OF False] appendDataPoint_length [OF that]
    show ?thesis by simp
  qed
  show ?thesis
    using assms(2) i p by (simp add: Render o renderHook_def Let_def)
next
  case Frame
  with assms(2) show ?thesis by (simp add: runFrame_def split: list.splits)
next
  case (Append opts' dataPoint)
  with assms(3) have o: "opts' = opts" by simp
  from appendDataPoint_length [OF assms(2)] show ?thesis
    by (simp add: Append o hookAppendDataPoint_def Let_def)
qed

lemma hook_buffer_bounded:
  "initialDataPoints opts \<le> maxDataPoints opts \<Longrightarrow> list_all (usesOptions opts) evs \<Longrightarrow>
     length (dataPointsRef (runHook (mountHook token opts now) evs)) \<le> maxDataPoints opts"
proof -
  assume a: "initialDataPoints opts \<le> maxDataPoints opts"
  have run: "length (dataPointsRef (runHook st evs)) \<le> maxDataPoints opts"
    if "length (dataPointsRef st) \<le> maxDataPoints opts" "list_all (usesOptions opts) evs"
    for st evs
    using that
  proof (induction evs arbitrary: st)
    case Nil
    then show ?case by (simp add: runHook_def)
  next
    case (Cons ev evs)
    from Cons.prems have u: "usesOptions opts ev" and us: "list_all (usesOptions opts) evs"
      by simp_all
    from Cons.IH [OF hookStep_bounded [OF a Cons.prems(1) u] us]
    show ?case by (simp add: runHook_def)
  qed
  have m: "length (dataPointsRef (mountHook token opts now)) \<le> maxDataPoints opts"
    using a by (simp add: mountHook_def initEffect_def priceEffect_def Let_def
        generateInitialData_length)
  assume "list_all (usesOptions opts) evs"
  with run [OF m] show ?thesis by simp
qed

lemma mountHook_tokenOne:
  "dataPointsRef (mountHook tokenOne opts now) = generateInitialData tokenOne (initialDataPoints opts) now \<and>
   initializedTokenRef (mountHook tokenOne opts now) = ''1'' \<and>
   lastPriceRef (mountHook tokenOne opts now) = 10 \<and>
   priceDeps (mountHook tokenOne opts now) = (10, maxDataPoints opts) \<and>
   initDeps (mountHook tokenOne opts now) = (''1'', initialDataPoints opts)"
  by (simp add: mountHook_def initEffect_def priceEffect_def Let_def tokenOne_def)

lemma two_appends_over_capacity:
  assumes "maxDataPoints opts' < initialDataPoints opts"
  shows "length (dataPointsRef (runHook (mountHook tokenOne opts now)
            [Render (tokenOne\<lparr>price := 11\<rparr>) opts' t1, Append opts' p])) = initialDataPoints opts \<and>
         last (dataPointsRef (runHook (mountHook tokenOne opts now)
            [Render (tokenOne\<lparr>price := 11\<rparr>) opts' t1, Append opts' p])) = p"
proof -
  let ?st = "mountHook tokenOne opts now"
  let ?tok = "tokenOne\<lparr>price := 11\<rparr>"
  note m = mountHook_tokenOne [of opts now]
  have i: "initEffect ?tok opts' t1 ?st = ?st"
    using m by (intro initEffect_seeded) (simp add: tokenOne_def)
  have l: "lastPriceRef ?st \<noteq> price ?tok" using m by simp
  have d: "priceDeps ?st \<noteq> (price ?tok, maxDataPoints opts')" using m by simp
  have r: "dataPointsRef (renderHook ?tok opts' t1 ?st)
             = appendDataPoint (maxDataPoints opts') (dataPointsRef ?st)
                 \<lparr>time = t1, value' = Fin (price ?tok)\<rparr>"
    using priceEffect_appends [OF l, of opts' t1] d
    by (simp add: renderHook_def Let_def i)
  have len0: "length (dataPointsRef ?st) = initialDataPoints opts"
    using m by (simp add: generateInitialData_length)
  have len1: "length (dataPointsRef (renderHook ?tok opts' t1 ?st)) = initialDataPoints opts"
    unfolding r using assms len0 by (simp add: appendDataPoint_over_capacity)
  let ?buf = "dataPointsRef (renderHook ?tok opts' t1 ?st)"
  have run: "dataPointsRef (runHook ?st [Render ?tok opts' t1, Append opts' p])
               = appendDataPoint (maxDataPoints opts') ?buf p"
    by (simp add: runHook_def hookAppendDataPoint_def Let_def)
  have over: "maxDataPoints opts' < length ?buf" using len1 assms by simp
  have "appendDataPoint (maxDataPoints opts') ?buf p = tl (?buf @ [p])"
    using over by (simp add: appendDataPoint_def shift_tl)
  moreover have "?buf \<noteq> []" using over by auto
  ultimately have "last (appendDataPoint (maxDataPoints opts') ?buf p) = p"
    by (cases ?buf) (simp_all add: last_tl)
  with run len1 over show ?thesis
    by (simp add: appendDataPoint_over_capacity)
qed

text \<open>
  Claim C4 at the failing input. With \<^verbatim>\<open>maxDataPoints\<close> 10 and the default 24 initial
  points the mount seeds 24 points; a price change and a call of \<^verbatim>\<open>appendDataPoint\<close>
  each push their point and shift one out, and the buffer still holds 24 points, more
  than its capacity. The same happens when the options of a mounted chart change from
  168 points to 60: the buffer keeps 168 points.
\<close>

theorem buffer_over_capacity_in_hook:
  "maxDataPoints hookSmall = 10 \<and>
   length (dataPointsRef (mountHook tokenOne hookSmall 0)) = 24 \<and>
   length (dataPointsRef (runHook (mountHook tokenOne hookSmall 0) appendsSmall)) = 24 \<and>
   last (dataPointsRef (runHook (mountHook tokenOne hookSmall 0) appendsSmall))
     = \<lparr>time = 7000, value' = Fin 13\<rparr> \<and>
   maxDataPoints hookHour = 60 \<and>
   length (dataPointsRef (runHook (mountHook tokenOne hookWeek 0) appendsHour)) = 168"
proof -
  have a: "maxDataPoints hookSmall < initialDataPoints hookSmall"
    by (simp add: hookSmall_def)
  have b: "maxDataPoints hookHour < initialDataPoints hookWeek"
    by (simp add: hookHour_def hookWeek_def)
  have m: "length (dataPointsRef (mountHook tokenOne hookSmall 0)) = 24"
    using mountHook_tokenOne [of hookSmall 0]
    by (simp add: generateInitialData_length hookSmall_def)
  from two_appends_over_capacity [OF a, of 0 3000 "\<lparr>time = 7000, value' = Fin 13\<rparr>"]
       two_appends_over_capacity [OF b, of 0 3000 "\<lparr>time = 7000, value' = Fin 13\<rparr>"] m
  show ?thesis
    by (simp add: appendsSmall_def appendsHour_def)
       (simp add: hookSmall_def hookHour_def hookWeek_def)
qed

section \<open>Properties of the poller\<close>

lemma seen_has_iff: "seen_has seen v = (is_primitive v \<and> v \<in> set seen)"
  by (cases v) simp_all

lemma set_seen_add: "set (seen_add seen v) = insert v (set seen)"
  by (auto simp: seen_add_def seen_has_iff)

lemma formattedToken_id:
  "formattedToken rt now r token = Inr p \<Longrightarrow> truthy (tokenId token) \<Longrightarrow> p_id p = tokenId token"
  by (auto simp: formattedToken_def tokenId_def Let_def js_or_def split: sum.splits)

lemma broadcastNewToken_cases:
  assumes "truthy (tokenId token)"
  shows "broadcastNewToken rt now r token trig = trig \<or>
         (\<exists>p. broadcastNewToken rt now r token trig = trig @ [p] \<and> p_id p = tokenId token)"
proof (cases "formattedToken rt now r token")
  case (Inl e)
  then show ?thesis by (simp add: broadcastNewToken_def)
next
  case (Inr p)
  with formattedToken_id [OF Inr assms] show ?thesis by (simp add: broadcastNewToken_def)
qed

lemma timesTriggered_append:
  "timesTriggered v (trig @ [p]) = timesTriggered v trig + (if p_id p = v then 1 else 0)"
  by (simp add: timesTriggered_def)

lemma timesTriggered_zero: "(timesTriggered v trig = 0) = (\<forall>p\<in>set trig. p_id p \<noteq> v)"
  by (auto simp: timesTriggered_def filter_empty_conv)

lemma poll_step_inv:
  assumes inv: "poller_inv st" and t: "truthy (tokenId token)"
    and n: "\<not> seen_has (seenTokenIds st) (tokenId token)"
  shows "poller_inv (st\<lparr>seenTokenIds := seen_add (seenTokenIds st) (tokenId token),
                        triggered := broadcastNewToken rt now r token (triggered st)\<rparr>)"
proof -
  from broadcastNewToken_cases [OF t, of rt now r "triggered st"]
  consider "broadcastNewToken rt now r token (triggered st) = triggered st"
    | p where "broadcastNewToken rt now r token (triggered st) = triggered st @ [p]"
        "p_id p = tokenId token"
    by blast
  then show ?thesis
  proof cases
    case 1
    with inv t show ?thesis by (auto simp: poller_inv_def set_seen_add)
  next
    case 2
    have fresh: "is_primitive (tokenId token) \<Longrightarrow> timesTriggered (tokenId token) (triggered st) = 0"
    proof -
      assume "is_primitive (tokenId token)"
      with n have "tokenId token \<notin> set (seenTokenIds st)" by (simp add: seen_has_iff)
      with inv show ?thesis by (auto simp: poller_inv_def timesTriggered_zero)
    qed
    have "\<And>v. is_primitive v \<Longrightarrow> timesTriggered v (triggered st @ [p]) \<le> 1"
    proof -
      fix v assume v: "is_primitive v"
      show "timesTriggered v (triggered st @ [p]) \<le> 1"
      proof (cases "p_id p = v")
        case True
        with v 2 fresh show ?thesis by (simp add: timesTriggered_append)
      next
        case False
        with v inv show ?thesis by (simp add: timesTriggered_append poller_inv_def)
      qed
    qed
    with inv t 2 show ?thesis by (auto simp: poller_inv_def set_seen_add)
  qed
qed

lemma poll_step_suppressed:
  assumes s: "suppressed S st" and t: "truthy (tokenId token)"
    and n: "\<not> seen_has (seenTokenIds st) (tokenId token)"
  shows "suppressed S (st\<lparr>seenTokenIds := seen_add (seenTokenIds st) (tokenId token),
                           triggered := broadcastNewToken rt now r token (triggered st)\<rparr>)"
proof -
  have notin: "is_primitive (tokenId token) \<Longrightarrow> tokenId token \<notin> S"
    using n s by (auto simp: seen_has_iff suppressed_def)
  from broadcastNewToken_cases [OF t, of rt now r "triggered st"] s notin
  show ?thesis by (auto simp: suppressed_def set_seen_add)
qed

lemma pollLoop_inv: "poller_inv st \<Longrightarrow> poller_inv (pollLoop rt c i tokens st)"
proof (induction tokens arbitrary: i st)
  case Nil
  then show ?case by simp
next
  case (Cons token rest)
  show ?case
    using Cons.IH [OF Cons.prems] Cons.IH [OF poll_step_inv [OF Cons.prems]]
    by (simp add: Let_def tokenId_def [symmetric])
qed

lemma pollLoop_suppressed: "suppressed S st \<Longrightarrow> suppressed S (pollLoop rt c i tokens st)"
proof (induction tokens arbitrary: i st)
  case Nil
  then show ?case by simp
next
  case (Cons token rest)
  show ?case
    using Cons.IH [OF Cons.prems] Cons.IH [OF poll_step_suppressed [OF Cons.prems]]
    by (simp add: Let_def tokenId_def [symmetric])
qed

lemma pollCycles_inv: "poller_inv st \<Longrightarrow> poller_inv (pollCycles rt cycles st)"
  by (induction cycles arbitrary: st) (auto simp: pollLoop_inv)

lemma pollCycles_suppressed: "suppressed S st \<Longrightarrow> suppressed S (pollCycles rt cycles st)"
  by (induction cycles arbitrary: st) (auto simp: pollLoop_suppressed)

lemma seedSeen_triggered: "triggered (seedSeen tokens st) = triggered st"
  by (induction tokens arbitrary: st) (simp_all add: Let_def)

lemma seedSeen_seen:
  "set (seenTokenIds (seedSeen tokens st))
     = set (seenTokenIds st) \<union> {v \<in> tokenId ` set tokens. truthy v}"
  by (induction tokens arbitrary: st)
     (auto simp: Let_def set_seen_add tokenId_def [symmetric])

lemma seedSeen_inv: "poller_inv (seedSeen tokens pollerStart)"
  by (simp add: poller_inv_def seedSeen_triggered seedSeen_seen)
     (simp add: pollerStart_def timesTriggered_def)

lemma seedSeen_suppressed:
  "suppressed {v \<in> tokenId ` set tokens. truthy v} (seedSeen tokens pollerStart)"
  by (simp add: suppressed_def seedSeen_triggered seedSeen_seen)
     (simp add: pollerStart_def)

lemma runPoller_truthy:
  "p \<in> set (triggered (runPoller rt initialTokens cycles)) \<Longrightarrow> truthy (p_id p)"
  using pollCycles_inv [OF seedSeen_inv, of rt cycles initialTokens]
  by (auto simp: runPoller_def poller_inv_def)


lemma tokenId_mobulaX1: "tokenId mobulaX1 = JStr ''x1''"
  by (simp add: tokenId_def mobulaX1_def noToken_def js_or_def)

lemma tokenId_mobulaX2: "tokenId mobulaX2 = JStr ''x2''"
  by (simp add: tokenId_def mobulaX2_def noToken_def js_or_def)

lemma formattedToken_mobulaX2:
  "formattedToken rt now r mobulaX2 =
     Inr \<lparr>p_id = JStr ''x2'', p_symbol = JStr ''UNKNOWN'', p_name = JStr ''New Token'',
          p_price = JNum (Fin 2), p_priceChange24h = JNum (Fin 0), p_volume24h = JNum (Fin 0),
          p_marketCap = JNum (Fin 0), p_liquidity = JNum (Fin 0), p_holders = randomHolders r,
          p_chain = JStr ''solana'', p_logo = JStr [], p_category = JStr ''new''\<rparr>"
  by (simp add: formattedToken_def mobulaX2_def noToken_def js_or_def js_times_def BLOCKCHAIN_def)

lemma scenario_A:
  "triggered (runPoller rt [mobulaX1] [(c, [mobulaX1, mobulaX2])]) =
     [\<lparr>p_id = JStr ''x2'', p_symbol = JStr ''UNKNOWN'', p_name = JStr ''New Token'',
       p_price = JNum (Fin 2), p_priceChange24h = JNum (Fin 0), p_volume24h = JNum (Fin 0),
       p_marketCap = JNum (Fin 0), p_liquidity = JNum (Fin 0),
       p_holders = randomHolders (c_random c 1),
       p_chain = JStr ''solana'', p_logo = JStr [], p_category = JStr ''new''\<rparr>]"
  by (simp add: runPoller_def pollerStart_def Let_def tokenId_def [symmetric] tokenId_mobulaX1
      tokenId_mobulaX2 seen_add_def broadcastNewToken_def formattedToken_mobulaX2)

text \<open>
  Claim C1, as amended. Within one poller process, over the startup batch and every
  later poll cycle, an identifier that a \<^verbatim>\<open>Set\<close> compares by value is passed to
  \<^verbatim>\<open>pusher.trigger\<close> at most once.
\<close>

theorem poller_at_most_once:
  "is_primitive v \<Longrightarrow> timesTriggered v (triggered (runPoller rt initialTokens cycles)) \<le> 1"
  using pollCycles_inv [OF seedSeen_inv, of rt cycles initialTokens]
  by (simp add: runPoller_def poller_inv_def)

theorem poller_at_most_once_witness:
  "is_primitive (JStr ''x2'') \<and>
   timesTriggered (JStr ''x2'')
     (triggered (runPoller plainRuntime []
        [(cycleZero, [mobulaX2, mobulaX1, mobulaX2]), (cycleZero, [mobulaX2])])) \<le> 1"
proof -
  have h: "is_primitive (JStr ''x2'')" by simp
  from poller_at_most_once [OF h] h show ?thesis by blast
qed

text \<open>
  The claim as stated fails on the webhook path, which has no dedup filter: two POSTs
  for the identifier \<^verbatim>\<open>x2\<close> trigger two events, and a POST for \<^verbatim>\<open>x2\<close> after the poller
  has announced \<^verbatim>\<open>x2\<close> triggers a second one on the same channel.
\<close>

theorem webhook_triggers_duplicates:
  "timesTriggered (JStr ''x2'') (snd (POST plainRuntime postX2 (snd (POST plainRuntime postX2 [])))) = 2 \<and>
   timesTriggered (JStr ''x2'')
     (snd (POST plainRuntime postX2
        (triggered (runPoller plainRuntime [mobulaX1] [(cycleZero, [mobulaX1, mobulaX2])])))) = 2"
  by (simp add: scenario_A)
     (simp add: POST_def postX2_def get_prop_def nullish_def webhookToken_def js_or_def
        timesTriggered_def)

text \<open>
  Claim C2. No identifier of the startup batch that a \<^verbatim>\<open>Set\<close> compares by value is ever
  passed to \<^verbatim>\<open>pusher.trigger\<close> by the poller, whatever the later cycles return. When the
  startup batch is the token \<^verbatim>\<open>x1\<close> and the next cycle returns \<^verbatim>\<open>x1\<close> and \<^verbatim>\<open>x2\<close>, exactly
  one event is triggered, the one for \<^verbatim>\<open>x2\<close>.
\<close>

theorem cold_start_suppression:
  "(\<forall>token\<in>set initialTokens. is_primitive (tokenId token) \<longrightarrow>
      timesTriggered (tokenId token) (triggered (runPoller rt initialTokens cycles)) = 0) \<and>
   map p_id (triggered (runPoller rt [mobulaX1] [(c, [mobulaX1, mobulaX2])])) = [JStr ''x2'']"
proof (intro conjI ballI impI)
  fix token
  assume t: "token \<in> set initialTokens" and p: "is_primitive (tokenId token)"
  let ?trig = "triggered (runPoller rt initialTokens cycles)"
  have s: "suppressed {v \<in> tokenId ` set initialTokens. truthy v} (runPoller rt initialTokens cycles)"
    unfolding runPoller_def by (rule pollCycles_suppressed [OF seedSeen_suppressed])
  show "timesTriggered (tokenId token) ?trig = 0"
    unfolding timesTriggered_zero
  proof
    fix q assume q: "q \<in> set ?trig"
    show "p_id q \<noteq> tokenId token"
    proof
      assume e: "p_id q = tokenId token"
      with runPoller_truthy [OF q] have "truthy (tokenId token)" by simp
      with t have "tokenId token \<in> {v \<in> tokenId ` set initialTokens. truthy v}" by blast
      with s q e p show False by (auto simp: suppressed_def)
    qed
  qed
next
  show "map p_id (triggered (runPoller rt [mobulaX1] [(c, [mobulaX1, mobulaX2])])) = [JStr ''x2'']"
    by (simp add: scenario_A)
qed

theorem cold_start_suppression_witness:
  "mobulaX1 \<in> set [mobulaX1] \<and> is_primitive (tokenId mobulaX1) \<and>
   timesTriggered (tokenId mobulaX1)
     (triggered (runPoller plainRuntime [mobulaX1]
        [(cycleZero, [mobulaX1, mobulaX2]), (cycleZero, [mobulaX2, mobulaX1])])) = 0 \<and>
   map p_id (triggered (runPoller plainRuntime [mobulaX1] [(cycleZero, [mobulaX1, mobulaX2])]))
     = [JStr ''x2'']"
proof -
  have m: "mobulaX1 \<in> set [mobulaX1]" by simp
  have p: "is_primitive (tokenId mobulaX1)" by (simp add: tokenId_mobulaX1)
  from cold_start_suppression [of "[mobulaX1]" plainRuntime
      "[(cycleZero, [mobulaX1, mobulaX2]), (cycleZero, [mobulaX2, mobulaX1])]" cycleZero] m p
  show ?thesis by blast
qed


section \<open>Properties of the webhook\<close>

lemma randomHolders_range:
  assumes "0 \<le> r" "r < 1"
  shows "\<exists>n. randomHolders r = JNum (Fin (of_int n)) \<and> 0 \<le> n \<and> n < 10000"
proof -
  have "0 \<le> \<lfloor>r * 10000\<rfloor>" using assms(1) by simp
  moreover have "\<lfloor>r * 10000\<rfloor> < 10000" using assms(2) by (simp add: floor_less_iff)
  ultimately show ?thesis by (auto simp: randomHolders_def)
qed







section \<open>Properties of the source adapter\<close>

lemma fetchFromCoinGecko_returns:
  "fetchFromCoinGecko rt env = Inr [] \<or> fetchFromCoinGecko rt env = coinGeckoBody rt env"
  by (cases "coinGeckoBody rt env") (simp_all add: fetchFromCoinGecko_def try_catch_def)

lemma fetchFromCoinGecko_total: "\<exists>tokens. fetchFromCoinGecko rt env = Inr tokens"
  by (cases "coinGeckoBody rt env") (simp_all add: fetchFromCoinGecko_def try_catch_def)

lemma fetchNewlyCreatedTokens_cases:
  "fetchNewlyCreatedTokens rt env = fetchFromCoinGecko rt env \<or>
   (\<exists>tokens. dexScreenerBody rt env = Inr (Some tokens) \<and>
             fetchNewlyCreatedTokens rt env = Inr tokens)"
proof (cases "dexScreenerBody rt env")
  case (Inl e)
  then show ?thesis by (simp add: fetchNewlyCreatedTokens_def try_catch_def)
next
  case (Inr r)
  obtain tokens where g: "fetchFromCoinGecko rt env = Inr tokens"
    using fetchFromCoinGecko_total by blast
  show ?thesis
    using Inr g by (cases r) (simp_all add: fetchNewlyCreatedTokens_def try_catch_def)
qed

lemma fetchNewlyCreatedTokens_total: "\<exists>tokens. fetchNewlyCreatedTokens rt env = Inr tokens"
  using fetchNewlyCreatedTokens_cases [of rt env] fetchFromCoinGecko_total [of rt env] by auto

lemma primaryFailed_body:
  "primaryFailed (f_dexscreener env) \<Longrightarrow>
     dexScreenerBody rt env = Inr None \<or> (\<exists>e. dexScreenerBody rt env = Inl e)"
  by (auto simp: primaryFailed_def dexScreenerBody_def
      split: fetch_result.splits option.splits sum.splits)

lemma primaryFailed_fallback:
  assumes "primaryFailed (f_dexscreener env)"
  shows "fetchNewlyCreatedTokens rt env = fetchFromCoinGecko rt env"
proof -
  obtain tokens where g: "fetchFromCoinGecko rt env = Inr tokens"
    using fetchFromCoinGecko_total by blast
  from primaryFailed_body [OF assms, of rt] show ?thesis
    by (auto simp: fetchNewlyCreatedTokens_def try_catch_def g)
qed

text \<open>
  Claim C8. The adapter always returns a list and never an exception. When the primary
  provider throws, answers with a status that is not OK, sends a body that does not
  parse or sends no pair, the result is that of the fallback; and the fallback returns
  either its transformed candidates or the empty list. Hence \<^verbatim>\<open>initializeSeenTokens\<close>
  and \<^verbatim>\<open>pollAndBroadcast\<close>, which have no handler of their own, return normally too.
\<close>

theorem adapter_never_raises:
  "(\<exists>tokens. fetchNewlyCreatedTokens rt env = Inr tokens) \<and>
   (primaryFailed (f_dexscreener env) \<longrightarrow>
      fetchNewlyCreatedTokens rt env = fetchFromCoinGecko rt env) \<and>
   (\<exists>tokens. fetchFromCoinGecko rt env = Inr tokens \<and>
      (tokens = [] \<or> coinGeckoBody rt env = Inr tokens)) \<and>
   (\<exists>st'. initializeSeenTokens rt env st = Inr st') \<and>
   (\<exists>st'. pollAndBroadcast rt env c st = Inr st')"
proof (intro conjI impI)
  show t: "\<exists>tokens. fetchNewlyCreatedTokens rt env = Inr tokens"
    by (rule fetchNewlyCreatedTokens_total)
  show "\<exists>tokens. fetchFromCoinGecko rt env = Inr tokens \<and>
      (tokens = [] \<or> coinGeckoBody rt env = Inr tokens)"
    using fetchFromCoinGecko_returns [of rt env] fetchFromCoinGecko_total [of rt env] by auto
  from t show "\<exists>st'. initializeSeenTokens rt env st = Inr st'"
    by (auto simp: initializeSeenTokens_def)
  from t show "\<exists>st'. pollAndBroadcast rt env c st = Inr st'"
    by (auto simp: pollAndBroadcast_def)
next
  assume "primaryFailed (f_dexscreener env)"
  then show "fetchNewlyCreatedTokens rt env = fetchFromCoinGecko rt env"
    by (rule primaryFailed_fallback)
qed

lemma coinGeckoBody_envFallback:
  "coinGeckoBody plainRuntime envFallback =
     Inr [noToken\<lparr>m_id := JStr ''bitcoin'', m_address := JStr ''bitcoin'',
                  m_symbol := JStr ''btc'', m_price := JNum (Fin 0),
                  m_priceChange24h := JNum (Fin 0), m_volume24h := JNum (Fin 0),
                  m_marketCap := JNum (Fin 0), m_liquidity := JNum (Fin 0),
                  m_holders := JNum (Fin 0), m_blockchain := JStr ''ethereum'',
                  m_createdAt := JStr ''2025-01-01T00:00:00.000Z''\<rparr>]"
  by (simp add: coinGeckoBody_def envFallback_def get_prop_def nullish_def coinToken_def
      js_or_def js_times_def randomHolders_def noToken_def plainRuntime_def)

theorem adapter_never_raises_witness:
  "primaryFailed (f_dexscreener envFallback) \<and>
   fetchNewlyCreatedTokens plainRuntime envFallback = coinGeckoBody plainRuntime envFallback \<and>
   (\<exists>token. fetchNewlyCreatedTokens plainRuntime envFallback = Inr [token]) \<and>
   primaryFailed (f_dexscreener envDown) \<and>
   fetchNewlyCreatedTokens plainRuntime envDown = Inr []"
proof -
  have a: "primaryFailed (f_dexscreener envFallback)"
    by (simp add: primaryFailed_def envFallback_def)
  have b: "primaryFailed (f_dexscreener envDown)"
    by (simp add: primaryFailed_def envDown_def)
  have g: "fetchFromCoinGecko plainRuntime envFallback = coinGeckoBody plainRuntime envFallback"
    by (simp add: fetchFromCoinGecko_def try_catch_def coinGeckoBody_envFallback)
  have d: "fetchFromCoinGecko plainRuntime envDown = Inr []"
    by (simp add: fetchFromCoinGecko_def try_catch_def coinGeckoBody_def envDown_def)
  from adapter_never_raises [of plainRuntime envFallback] a g
  have 1: "fetchNewlyCreatedTokens plainRuntime envFallback = coinGeckoBody plainRuntime envFallback"
    by simp
  from adapter_never_raises [of plainRuntime envDown] b d
  have 2: "fetchNewlyCreatedTokens plainRuntime envDown = Inr []"
    by simp
  from a b 1 2 show ?thesis by (simp add: coinGeckoBody_envFallback)
qed

section \<open>Properties of the subscription manager\<close>

lemma acquire_live:
  "live n st \<Longrightarrow>
     live (n + 1) (acquire st) \<and> connects (acquire st) = connects st \<and>
     handlerBindings (acquire st) = handlerBindings st \<and>
     subscribes (acquire st) = subscribes st \<and> unsubscribes (acquire st) = unsubscribes st \<and>
     disconnects (acquire st) = disconnects st"
  by (simp add: live_def acquire_def Let_def)

lemma release_live:
  "live n st \<Longrightarrow> 0 < n \<Longrightarrow>
     live (n - 1) (release st) \<and> connects (release st) = connects st \<and>
     handlerBindings (release st) = handlerBindings st \<and>
     subscribes (release st) = subscribes st \<and> unsubscribes (release st) = unsubscribes st \<and>
     disconnects (release st) = disconnects st"
  by (auto simp: live_def release_def Let_def of_nat_diff)

text \<open>A timer that fires while a hook is mounted finds a count other than zero.\<close>

lemma elapse_mounted:
  "live n st \<Longrightarrow> 0 < n \<Longrightarrow>
     live n (elapse st) \<and> connects (elapse st) = connects st \<and>
     handlerBindings (elapse st) = handlerBindings st \<and>
     subscribes (elapse st) = subscribes st \<and> unsubscribes (elapse st) = unsubscribes st \<and>
     disconnects (elapse st) = disconnects st"
  by (simp add: live_def elapse_def teardown_def)

text \<open>The first timer that fires at count zero tears the connection down.\<close>

lemma elapse_live0:
  assumes "live 0 st"
  shows "\<not> pusherInstance (elapse st) \<and> \<not> channelInstance (elapse st) \<and>
         subscriberCount (elapse st) = 0 \<and> connects (elapse st) = connects st \<and>
         handlerBindings (elapse st) = handlerBindings st \<and>
         subscribes (elapse st) = subscribes st \<and>
         unsubscribes (elapse st) = unsubscribes st + 1 \<and>
         disconnects (elapse st) = disconnects st + 1 \<and>
         pendingTimers (elapse st) = pendingTimers st - 1"
  using assms by (simp add: live_def elapse_def teardown_def Let_def)

text \<open>After the teardown further timers only count down.\<close>

lemma elapse_closed:
  "\<not> pusherInstance st \<Longrightarrow> subscriberCount st = 0 \<Longrightarrow>
     (elapse ^^ k) st = st\<lparr>pendingTimers := pendingTimers st - k\<rparr>"
proof (induction k arbitrary: st)
  case 0
  then show ?case by simp
next
  case (Suc k)
  have e: "elapse st = st\<lparr>pendingTimers := pendingTimers st - 1\<rparr>"
    using Suc.prems by (simp add: elapse_def teardown_def Let_def)
  have "(elapse ^^ Suc k) st = (elapse ^^ k) (elapse st)"
    by (simp add: funpow_swap1)
  also have "\<dots> = (st\<lparr>pendingTimers := pendingTimers st - 1\<rparr>)
                      \<lparr>pendingTimers := pendingTimers st - 1 - k\<rparr>"
    unfolding e using Suc.prems by (subst Suc.IH) simp_all
  finally show ?case by simp
qed

lemma elapseAll_closed:
  assumes "\<not> pusherInstance st" "subscriberCount st = 0"
  shows "elapseAll ((elapse ^^ k) st) = st\<lparr>pendingTimers := 0\<rparr>"
proof -
  let ?st2 = "st\<lparr>pendingTimers := pendingTimers st - k\<rparr>"
  have "elapseAll ((elapse ^^ k) st) = elapseAll ?st2"
    by (simp add: elapse_closed [OF assms])
  also have "\<dots> = ?st2\<lparr>pendingTimers := pendingTimers ?st2 - pendingTimers ?st2\<rparr>"
    unfolding elapseAll_def using assms by (intro elapse_closed) simp_all
  finally show ?thesis by simp
qed

text \<open>
  From a state with no hook mounted and the connection still up, any number of timers
  fired one by one and then the rest of them leave one more disconnect behind.
\<close>

lemma elapse_tail:
  assumes "live 0 st"
  shows "connects (elapseAll ((elapse ^^ k) st)) = connects st \<and>
         handlerBindings (elapseAll ((elapse ^^ k) st)) = handlerBindings st \<and>
         subscribes (elapseAll ((elapse ^^ k) st)) = subscribes st \<and>
         unsubscribes (elapseAll ((elapse ^^ k) st)) = unsubscribes st + 1 \<and>
         disconnects (elapseAll ((elapse ^^ k) st)) = disconnects st + 1 \<and>
         subscriberCount (elapseAll ((elapse ^^ k) st)) = 0 \<and>
         pendingTimers (elapseAll ((elapse ^^ k) st)) = 0 \<and>
         \<not> pusherInstance (elapseAll ((elapse ^^ k) st))"
proof -
  note 1 = elapse_live0 [OF assms]
  from 1 have c: "\<not> pusherInstance (elapse st)" "subscriberCount (elapse st) = 0" by simp_all
  from assms obtain m where m: "pendingTimers st = Suc m"
    by (auto simp: live_def gr0_conv_Suc)
  from 1 m have p: "pendingTimers (elapse st) = m" by simp
  have "elapseAll ((elapse ^^ k) st) = (elapse st)\<lparr>pendingTimers := 0\<rparr>"
  proof (cases k)
    case 0
    have "elapseAll st = (elapse ^^ m) (elapse st)"
      by (simp add: elapseAll_def m funpow_swap1)
    also have "\<dots> = (elapse st)\<lparr>pendingTimers := pendingTimers (elapse st) - m\<rparr>"
      by (rule elapse_closed [OF c])
    finally show ?thesis using 0 p by simp
  next
    case (Suc j)
    then have "(elapse ^^ k) st = (elapse ^^ j) (elapse st)" by (simp add: funpow_swap1)
    then show ?thesis by (simp add: elapseAll_closed [OF c])
  qed
  with 1 show ?thesis by simp
qed

lemma runSub_only_elapse:
  "list_all (\<lambda>ev. ev = Elapse) evs \<Longrightarrow> runSub st evs = (elapse ^^ length evs) st"
proof (induction evs arbitrary: st)
  case Nil
  then show ?case by (simp add: runSub_def)
next
  case (Cons ev evs)
  then have "runSub (elapse st) evs = (elapse ^^ length evs) (elapse st)" by simp
  with Cons.prems show ?case by (simp add: runSub_def funpow_swap1)
qed

lemma runSub_then_elapseAll:
  "live n st \<Longrightarrow> balanced n evs \<Longrightarrow>
     connects (elapseAll (runSub st evs)) = connects st \<and>
     handlerBindings (elapseAll (runSub st evs)) = handlerBindings st \<and>
     subscribes (elapseAll (runSub st evs)) = subscribes st \<and>
     unsubscribes (elapseAll (runSub st evs)) = unsubscribes st + 1 \<and>
     disconnects (elapseAll (runSub st evs)) = disconnects st + 1 \<and>
     subscriberCount (elapseAll (runSub st evs)) = 0 \<and>
     pendingTimers (elapseAll (runSub st evs)) = 0 \<and>
     \<not> pusherInstance (elapseAll (runSub st evs))"
proof (induction evs arbitrary: n st)
  case Nil
  then have l: "live 0 st" by simp
  from elapse_tail [OF l, of 0] show ?case by (simp add: runSub_def)
next
  case (Cons ev evs)
  show ?case
  proof (cases ev)
    case Acquire
    with Cons.prems have b: "balanced (n + 1) evs" by simp
    from acquire_live [OF Cons.prems(1)] Cons.IH [OF _ b, of "acquire st"] Acquire
    show ?thesis by (simp add: runSub_def)
  next
    case Release
    with Cons.prems have n: "0 < n" and b: "balanced (n - 1) evs" by simp_all
    from release_live [OF Cons.prems(1) n] Cons.IH [OF _ b, of "release st"] Release
    show ?thesis by (simp add: runSub_def)
  next
    case Elapse
    show ?thesis
    proof (cases "0 < n")
      case True
      with Cons.prems Elapse have b: "balanced n evs" by simp
      from elapse_mounted [OF Cons.prems(1) True] Cons.IH [OF _ b, of "elapse st"] Elapse
      show ?thesis by (simp add: runSub_def)
    next
      case False
      with Cons.prems Elapse have l: "live 0 st" and a: "list_all (\<lambda>ev. ev = Elapse) (ev # evs)"
        by simp_all
      from elapse_tail [OF l, of "length (ev # evs)"] runSub_only_elapse [OF a, of st]
      show ?thesis by simp
    qed
  qed
qed

lemma acquire_moduleStart:
  "live 1 (acquire moduleStart) \<and> connects (acquire moduleStart) = 1 \<and>
   handlerBindings (acquire moduleStart) = 1 \<and> subscribes (acquire moduleStart) = 1 \<and>
   unsubscribes (acquire moduleStart) = 0 \<and> disconnects (acquire moduleStart) = 0"
  by (simp add: live_def acquire_def moduleStart_def Let_def)

lemma balanced_counts:
  "balanced n evs \<Longrightarrow> count_list evs Release = count_list evs Acquire + n"
proof (induction evs arbitrary: n)
  case Nil
  then show ?case by simp
next
  case (Cons ev evs)
  show ?case
  proof (cases ev)
    case Acquire
    with Cons.prems Cons.IH [of "n + 1"] show ?thesis by simp
  next
    case Release
    with Cons.prems Cons.IH [of "n - 1"] show ?thesis by simp
  next
    case Elapse
    show ?thesis
    proof (cases "0 < n")
      case True
      with Elapse Cons.prems Cons.IH [of n] show ?thesis by simp
    next
      case False
      with Elapse Cons.prems have a: "list_all (\<lambda>ev. ev = Elapse) evs" and n: "n = 0"
        by simp_all
      from a have "count_list evs Release = 0" "count_list evs Acquire = 0"
        by (induction evs) auto
      with Elapse n show ?thesis by simp
    qed
  qed
qed

text \<open>
  Claim C3, as amended. For every \<open>N\<close> of at least one and every order of \<open>N\<close> mounts
  and \<open>N\<close> unmounts in which each unmount belongs to a mounted hook and no mount follows
  a grace timer that fired at count zero (timers that fire while a hook is mounted are
  allowed anywhere), once the grace period has passed exactly one connection was
  created, the connection handlers were bound once, the channel was subscribed and
  unsubscribed once and \<^verbatim>\<open>disconnect()\<close> was called once.
\<close>

theorem refcount_one_connection:
  "balanced 0 evs \<Longrightarrow> count_list evs Acquire = N \<Longrightarrow> 0 < N \<Longrightarrow>
     count_list evs Release = N \<and>
     connects (elapseAll (runSub moduleStart evs)) = 1 \<and>
     handlerBindings (elapseAll (runSub moduleStart evs)) = 1 \<and>
     subscribes (elapseAll (runSub moduleStart evs)) = 1 \<and>
     unsubscribes (elapseAll (runSub moduleStart evs)) = 1 \<and>
     disconnects (elapseAll (runSub moduleStart evs)) = 1 \<and>
     subscriberCount (elapseAll (runSub moduleStart evs)) = 0 \<and>
     pendingTimers (elapseAll (runSub moduleStart evs)) = 0 \<and>
     \<not> pusherInstance (elapseAll (runSub moduleStart evs))"
proof -
  assume b: "balanced 0 evs" and c: "count_list evs Acquire = N" and n: "0 < N"
  have "\<exists>rest. evs = Acquire # rest \<and> balanced 1 rest"
  proof (cases evs)
    case Nil
    with c n show ?thesis by simp
  next
    case (Cons ev rest)
    show ?thesis
    proof (cases ev)
      case Acquire
      with Cons b show ?thesis by simp
    next
      case Release
      with Cons b show ?thesis by simp
    next
      case Elapse
      with Cons b have "list_all (\<lambda>ev. ev = Elapse) evs" by simp
      then have "count_list evs Acquire = 0" by (induction evs) auto
      with c n show ?thesis by simp
    qed
  qed
  then obtain rest where "evs = Acquire # rest" and r: "balanced 1 rest" by blast
  then have run: "runSub moduleStart evs = runSub (acquire moduleStart) rest"
    by (simp add: runSub_def)
  from acquire_moduleStart have l: "live 1 (acquire moduleStart)" by simp
  from runSub_then_elapseAll [OF l r] acquire_moduleStart balanced_counts [OF b] c
  show ?thesis by (simp add: run)
qed

theorem refcount_one_connection_witness:
  "balanced 0 [Acquire, Release, Acquire, Elapse, Acquire, Release, Release, Elapse] \<and>
   count_list [Acquire, Release, Acquire, Elapse, Acquire, Release, Release, Elapse] Acquire = 3 \<and>
   (0::nat) < 3 \<and>
   connects (elapseAll (runSub moduleStart
      [Acquire, Release, Acquire, Elapse, Acquire, Release, Release, Elapse])) = 1 \<and>
   handlerBindings (elapseAll (runSub moduleStart
      [Acquire, Release, Acquire, Elapse, Acquire, Release, Release, Elapse])) = 1 \<and>
   disconnects (elapseAll (runSub moduleStart
      [Acquire, Release, Acquire, Elapse, Acquire, Release, Release, Elapse])) = 1"
proof -
  let ?evs = "[Acquire, Release, Acquire, Elapse, Acquire, Release, Release, Elapse]"
  have b: "balanced 0 ?evs" by simp
  have c: "count_list ?evs Acquire = 3" by simp
  have n: "(0::nat) < 3" by simp
  from refcount_one_connection [OF b c n] b c n show ?thesis by blast
qed

text \<open>
  The claim as stated fails for \<open>N = 0\<close>, where nothing is ever connected, and for a
  grace timer that fires at count zero between an unmount and the next mount: one mount
  and unmount, 100 ms, and another mount and unmount make two connections, two bindings
  of the connection handlers and two disconnects.
\<close>

theorem refcount_two_connections:
  "connects (elapseAll (runSub moduleStart [])) = 0 \<and>
   disconnects (elapseAll (runSub moduleStart [])) = 0 \<and>
   connects (elapseAll (runSub moduleStart [Acquire, Release, Elapse, Acquire, Release])) = 2 \<and>
   handlerBindings (elapseAll (runSub moduleStart [Acquire, Release, Elapse, Acquire, Release])) = 2 \<and>
   disconnects (elapseAll (runSub moduleStart [Acquire, Release, Elapse, Acquire, Release])) = 2"
  by (simp add: runSub_def elapseAll_def moduleStart_def acquire_def release_def elapse_def
      teardown_def Let_def)


end
